theory Spec2Isabelle
  imports Main "HOL-Library.Sublist" "HOL-Library.AList"
begin

section \<open>Registries: tier-based access control\<close>

text \<open>
  \<^verbatim>\<open>NeuronRegistry.validateAccess\<close> and \<^verbatim>\<open>GraphRegistry.validateAccess\<close> decide whether a
  user may use a resource. Both read the user's tier through \<^verbatim>\<open>getUserTier\<close>, which queries
  the user collection. The collection is a parameter of the model: for each user id the
  query throws, finds no document, or finds a document whose \<^verbatim>\<open>accountLevel\<close> is a number
  or is absent. Tiers are JavaScript numbers; the model uses integers.
\<close>

datatype user_lookup = LookupThrows | UserMissing | UserFound "int option"

datatype access_error =
    RequiresTier string int "int option"
  | PrivateResource string

record NeuronConfig =
  neuron_id :: string
  neuron_tier :: int
  neuron_userId :: "string option"

record GraphAccessConfig =
  graph_graphId :: string
  graph_tier :: int
  graph_userId :: string

text \<open>
  \<^verbatim>\<open>NeuronRegistry.getUserTier\<close>: \<^verbatim>\<open>return user.accountLevel\<close> hands an absent field on as
  \<^verbatim>\<open>undefined\<close> (\<open>None\<close>); a missing user and a failed query give 4.
\<close>

fun neuron_getUserTier :: "user_lookup \<Rightarrow> int option" where
  "neuron_getUserTier LookupThrows = Some 4"
| "neuron_getUserTier UserMissing = Some 4"
| "neuron_getUserTier (UserFound lvl) = lvl"

text \<open>\<^verbatim>\<open>userTier > config.tier\<close>; a comparison with \<^verbatim>\<open>undefined\<close> is false.\<close>

fun js_gt_tier :: "int option \<Rightarrow> int \<Rightarrow> bool" where
  "js_gt_tier None t = False"
| "js_gt_tier (Some u) t = (u > t)"

definition neuron_validateAccess ::
  "(string \<Rightarrow> user_lookup) \<Rightarrow> NeuronConfig \<Rightarrow> string \<Rightarrow> access_error + unit" where
  "neuron_validateAccess users config userId =
     (if neuron_userId config = Some userId then Inr ()
      else if neuron_userId config = Some ''system'' then
        (let userTier = neuron_getUserTier (users userId) in
         if js_gt_tier userTier (neuron_tier config)
         then Inl (RequiresTier (neuron_id config) (neuron_tier config) userTier)
         else Inr ())
      else Inl (PrivateResource (neuron_id config)))"

text \<open>
  \<^verbatim>\<open>GraphRegistry.getUserTier\<close>: the level is used only when
  \<^verbatim>\<open>typeof user.accountLevel === 'number'\<close>; everything else gives 4.
\<close>

fun graph_getUserTier :: "user_lookup \<Rightarrow> int" where
  "graph_getUserTier (UserFound (Some lvl)) = lvl"
| "graph_getUserTier (UserFound None) = 4"
| "graph_getUserTier UserMissing = 4"
| "graph_getUserTier LookupThrows = 4"

definition graph_validateAccess ::
  "(string \<Rightarrow> user_lookup) \<Rightarrow> GraphAccessConfig \<Rightarrow> string \<Rightarrow> access_error + unit" where
  "graph_validateAccess users graphConfig userId =
     (if graph_userId graphConfig = userId then Inr ()
      else if graph_userId graphConfig = ''system'' then
        (let userTier = graph_getUserTier (users userId) in
         if userTier > graph_tier graphConfig
         then Inl (RequiresTier (graph_graphId graphConfig) (graph_tier graphConfig) (Some userTier))
         else Inr ())
      else Inl (PrivateResource (graph_graphId graphConfig)))"

text \<open>
  The tier the specification attributes to a user: the stored level, and 4 whenever no
  level is known (the lookup fails, there is no document for the user, or the document
  has no level).
\<close>

fun specUserTier :: "user_lookup \<Rightarrow> int" where
  "specUserTier LookupThrows = 4"
| "specUserTier UserMissing = 4"
| "specUserTier (UserFound None) = 4"
| "specUserTier (UserFound (Some lvl)) = lvl"

text \<open>
  A user collection for the examples: two users with a level, one whose lookup fails,
  one whose document has no level; every other user is unknown.
\<close>

definition exampleUsers :: "string \<Rightarrow> user_lookup" where
  "exampleUsers u =
     (if u = ''u1'' then UserFound (Some 4)
      else if u = ''u2'' then UserFound (Some 1)
      else if u = ''u3'' then LookupThrows
      else if u = ''u4'' then UserFound None
      else UserMissing)"

section \<open>JavaScript strings and values\<close>

text \<open>
  Strings are byte strings; \<^verbatim>\<open>trim\<close> removes the ASCII white space and line terminators.
  A JavaScript value is a tree: primitives, arrays and plain objects (an association list in
  key order, keys distinct). A number \<open>Num m s\<close> is the decimal \<open>m / 10 ^ s\<close>, which covers
  every number a JSON text or a literal of the expression grammar denotes, up to the
  rounding of doubles; \<^verbatim>\<open>String(n)\<close> is modelled in plain decimal notation (no exponent).
  Members inherited from prototypes (methods, \<^verbatim>\<open>constructor\<close>) are not part of a value.
\<close>

definition isWhite :: "char \<Rightarrow> bool" where
  "isWhite c = (c \<in> set [CHR 0x09, CHR 0x0A, CHR 0x0B, CHR 0x0C, CHR 0x0D, CHR '' ''])"

definition trim :: "string \<Rightarrow> string" where
  "trim s = rev (dropWhile isWhite (rev (dropWhile isWhite s)))"

definition startsWith :: "string \<Rightarrow> string \<Rightarrow> bool" where
  "startsWith s p = prefix p s"

definition endsWith :: "string \<Rightarrow> string \<Rightarrow> bool" where
  "endsWith s p = suffix p s"

fun str_includes :: "string \<Rightarrow> string \<Rightarrow> bool" where
  "str_includes [] needle = (needle = [])"
| "str_includes (c # cs) needle = (prefix needle (c # cs) \<or> str_includes cs needle)"

fun stripPrefix :: "string \<Rightarrow> string \<Rightarrow> string option" where
  "stripPrefix [] s = Some s"
| "stripPrefix (p # ps) [] = None"
| "stripPrefix (p # ps) (c # cs) = (if p = c then stripPrefix ps cs else None)"

fun splitOn :: "char \<Rightarrow> string \<Rightarrow> string list" where
  "splitOn d [] = [[]]"
| "splitOn d (c # cs) =
     (if c = d then [] # splitOn d cs
      else (case splitOn d cs of [] \<Rightarrow> [[c]] | seg # segs \<Rightarrow> (c # seg) # segs))"

fun join :: "string \<Rightarrow> string list \<Rightarrow> string" where
  "join sep [] = []"
| "join sep [x] = x"
| "join sep (x # y # ys) = x @ sep @ join sep (y # ys)"

definition isDigit :: "char \<Rightarrow> bool" where
  "isDigit c = (of_char c \<ge> (48::nat) \<and> of_char c \<le> (57::nat))"

definition isWordChar :: "char \<Rightarrow> bool" where
  "isWordChar c =
     (let n = (of_char c :: nat) in
      (48 \<le> n \<and> n \<le> 57) \<or> (65 \<le> n \<and> n \<le> 90) \<or> (97 \<le> n \<and> n \<le> 122) \<or> n = 95)"

definition isPathChar :: "char \<Rightarrow> bool" where
  "isPathChar c = (isWordChar c \<or> c = CHR ''.'')"

definition isPath :: "string \<Rightarrow> bool" where
  "isPath s = list_all (\<lambda>seg. seg \<noteq> [] \<and> list_all isWordChar seg) (splitOn CHR ''.'' s)"

datatype jsval =
    Undefined
  | Null
  | Bool bool
  | Num int nat
  | Str string
  | Arr "jsval list"
  | Obj "(string \<times> jsval) list"

definition digitChar :: "nat \<Rightarrow> char" where
  "digitChar d = ''0123456789'' ! d"

fun showNat :: "nat \<Rightarrow> string" where
  "showNat n = (if n < 10 then [digitChar n] else showNat (n div 10) @ [digitChar (n mod 10)])"

declare showNat.simps [simp del]

fun normNum :: "int \<Rightarrow> nat \<Rightarrow> int \<times> nat" where
  "normNum m s = (if s = 0 \<or> m mod 10 \<noteq> 0 then (m, s) else normNum (m div 10) (s - 1))"

declare normNum.simps [simp del]

definition showNum :: "int \<Rightarrow> nat \<Rightarrow> string" where
  "showNum m s =
     (case normNum m s of (m', s') \<Rightarrow>
        let ds = showNat (nat \<bar>m'\<bar>);
            padded = replicate (Suc s' - length ds) CHR ''0'' @ ds;
            k = length padded - s'
        in (if m' < 0 then ''-'' else []) @ take k padded
           @ (if s' = 0 then [] else ''.'' @ drop k padded))"

definition numEq :: "int \<times> nat \<Rightarrow> int \<times> nat \<Rightarrow> bool" where
  "numEq a b = (fst a * 10 ^ snd b = fst b * 10 ^ snd a)"

definition numLess :: "int \<times> nat \<Rightarrow> int \<times> nat \<Rightarrow> bool" where
  "numLess a b = (fst a * 10 ^ snd b < fst b * 10 ^ snd a)"

fun jsString :: "jsval \<Rightarrow> string" where
  "jsString Undefined = ''undefined''"
| "jsString Null = ''null''"
| "jsString (Bool b) = (if b then ''true'' else ''false'')"
| "jsString (Num m s) = showNum m s"
| "jsString (Str s) = s"
| "jsString (Arr xs) =
     join '','' (map (\<lambda>x. if x = Undefined \<or> x = Null then [] else jsString x) xs)"
| "jsString (Obj kvs) = ''[object Object]''"

fun truthy :: "jsval \<Rightarrow> bool" where
  "truthy Undefined = False"
| "truthy Null = False"
| "truthy (Bool b) = b"
| "truthy (Num m s) = (m \<noteq> 0)"
| "truthy (Str s) = (s \<noteq> [])"
| "truthy (Arr xs) = True"
| "truthy (Obj kvs) = True"


definition jsOr :: "string option \<Rightarrow> string \<Rightarrow> string" where
  "jsOr a b = (case a of None \<Rightarrow> b | Some s \<Rightarrow> if s = [] then b else s)"

definition isIndex :: "string \<Rightarrow> bool" where
  "isIndex s = (s \<noteq> [] \<and> list_all isDigit s \<and> (s = ''0'' \<or> hd s \<noteq> CHR ''0''))"

definition digitVal :: "char \<Rightarrow> nat" where
  "digitVal c = of_char c - 48"

definition parseNat :: "string \<Rightarrow> nat" where
  "parseNat s = foldl (\<lambda>acc c. 10 * acc + digitVal c) 0 s"

definition lookupKey :: "(string \<times> jsval) list \<Rightarrow> string \<Rightarrow> jsval" where
  "lookupKey kvs k = (case map_of kvs k of None \<Rightarrow> Undefined | Some v \<Rightarrow> v)"

text \<open>
  \<^verbatim>\<open>current[part]\<close> on a value that is neither \<^verbatim>\<open>null\<close> nor \<^verbatim>\<open>undefined\<close> (both callers
  test that before they read): an own property of an object, an element or the length of
  an array or a string.
\<close>

fun getProp :: "jsval \<Rightarrow> string \<Rightarrow> jsval" where
  "getProp (Obj kvs) k = lookupKey kvs k"
| "getProp (Arr xs) k =
     (if k = ''length'' then Num (int (length xs)) 0
      else if isIndex k \<and> parseNat k < length xs then xs ! parseNat k
      else Undefined)"
| "getProp (Str s) k =
     (if k = ''length'' then Num (int (length s)) 0
      else if isIndex k \<and> parseNat k < length s then Str [s ! parseNat k]
      else Undefined)"
| "getProp v k = Undefined"

definition isObjectType :: "jsval \<Rightarrow> bool" where
  "isObjectType v = (case v of Arr xs \<Rightarrow> True | Obj kvs \<Rightarrow> True | Null \<Rightarrow> True | _ \<Rightarrow> False)"

section \<open>Condition evaluator (conditionEvaluator.ts)\<close>

text \<open>The loop of \<^verbatim>\<open>getNestedProperty\<close> over the parts of the path.\<close>

fun walkParts :: "jsval \<Rightarrow> string list \<Rightarrow> jsval" where
  "walkParts current [] = current"
| "walkParts current (part # parts) =
     (if current = Null \<or> current = Undefined then Undefined
      else walkParts (getProp current part) parts)"

definition getNestedProperty :: "jsval \<Rightarrow> string \<Rightarrow> jsval" where
  "getNestedProperty obj path =
     (if \<not> truthy obj \<or> \<not> isObjectType obj then Undefined
      else walkParts obj (splitOn CHR ''.'' path))"

text \<open>
  \<^verbatim>\<open>/^-?\d+(\.\d+)?$/\<close> followed by \<^verbatim>\<open>parseFloat\<close>: the decimal a matching string denotes.
\<close>

definition parseDecimal :: "string \<Rightarrow> (int \<times> nat) option" where
  "parseDecimal s =
     (let neg = (s \<noteq> [] \<and> hd s = CHR ''-'');
          body = (if neg then tl s else s);
          ip = takeWhile (\<lambda>c. c \<noteq> CHR ''.'') body;
          rest = dropWhile (\<lambda>c. c \<noteq> CHR ''.'') body;
          fp = (if rest = [] then [] else tl rest)
      in if ip \<noteq> [] \<and> list_all isDigit ip \<and> (rest = [] \<or> (fp \<noteq> [] \<and> list_all isDigit fp))
         then Some (normNum ((if neg then -1 else 1) * int (parseNat (ip @ fp))) (length fp))
         else None)"

definition slice1 :: "string \<Rightarrow> string" where
  "slice1 s = butlast (tl s)"

definition parseValue :: "string \<Rightarrow> jsval" where
  "parseValue v =
     (let trimmed = trim v in
      if (startsWith trimmed [CHR 0x27] \<and> endsWith trimmed [CHR 0x27])
         \<or> (startsWith trimmed [CHR 0x22] \<and> endsWith trimmed [CHR 0x22])
      then Str (slice1 trimmed)
      else (case parseDecimal trimmed of
              Some n \<Rightarrow> Num (fst n) (snd n)
            | None \<Rightarrow>
                if trimmed = ''true'' then Bool True
                else if trimmed = ''false'' then Bool False
                else if trimmed = ''null'' then Null
                else if trimmed = ''undefined'' then Undefined
                else if startsWith trimmed ''state.'' then Str trimmed
                else Str trimmed))"

text \<open>
  \<^verbatim>\<open>ToNumber\<close> of a string: white space is trimmed, the empty string is 0, and a signed
  decimal with an optional fraction is its value. Numeric strings in exponent or radix
  notation and \<^verbatim>\<open>Infinity\<close> are outside the modelled fragment.
\<close>

definition strToNumber :: "string \<Rightarrow> (int \<times> nat) option" where
  "strToNumber s =
     (let t = trim s in
      if t = [] then Some (0, 0)
      else if hd t = CHR ''+'' then
        (if tl t \<noteq> [] \<and> hd (tl t) \<noteq> CHR ''-'' then parseDecimal (tl t) else None)
      else parseDecimal t)"

definition toPrimitive :: "jsval \<Rightarrow> jsval" where
  "toPrimitive v = (case v of Arr xs \<Rightarrow> Str (jsString v) | Obj kvs \<Rightarrow> Str (jsString v) | _ \<Rightarrow> v)"

fun toNumber :: "jsval \<Rightarrow> (int \<times> nat) option" where
  "toNumber Undefined = None"
| "toNumber Null = Some (0, 0)"
| "toNumber (Bool b) = Some (if b then 1 else 0, 0)"
| "toNumber (Num m s) = Some (m, s)"
| "toNumber (Str s) = strToNumber s"
| "toNumber v = None"

fun strLess :: "string \<Rightarrow> string \<Rightarrow> bool" where
  "strLess [] [] = False"
| "strLess [] (d # ds) = True"
| "strLess (c # cs) [] = False"
| "strLess (c # cs) (d # ds) =
     (if c = d then strLess cs ds else (of_char c :: nat) < of_char d)"

text \<open>
  The abstract relational comparison \<^verbatim>\<open>x < y\<close>: \<open>None\<close> is its result \<^verbatim>\<open>undefined\<close>
  (an operand is \<^verbatim>\<open>NaN\<close>).
\<close>

definition jsLess :: "jsval \<Rightarrow> jsval \<Rightarrow> bool option" where
  "jsLess x y =
     (case (toPrimitive x, toPrimitive y) of
        (Str a, Str b) \<Rightarrow> Some (strLess a b)
      | (px, py) \<Rightarrow>
          (case (toNumber px, toNumber py) of
             (Some a, Some b) \<Rightarrow> Some (numLess a b)
           | _ \<Rightarrow> None))"

text \<open>
  \<^verbatim>\<open>===\<close> with a primitive on the right (the value \<^verbatim>\<open>parseValue\<close> returns): an array or an
  object is never strictly equal to it.
\<close>

fun strictEq :: "jsval \<Rightarrow> jsval \<Rightarrow> bool" where
  "strictEq Undefined Undefined = True"
| "strictEq Null Null = True"
| "strictEq (Bool a) (Bool b) = (a = b)"
| "strictEq (Num m s) (Num n t) = numEq (m, s) (n, t)"
| "strictEq (Str a) (Str b) = (a = b)"
| "strictEq x y = False"

definition compareOp :: "string \<Rightarrow> jsval \<Rightarrow> jsval \<Rightarrow> bool" where
  "compareOp operator leftValue rightValue =
     (if operator = ''==='' then strictEq leftValue rightValue
      else if operator = ''!=='' then \<not> strictEq leftValue rightValue
      else if operator = ''>'' then jsLess rightValue leftValue = Some True
      else if operator = ''<'' then jsLess leftValue rightValue = Some True
      else if operator = ''>='' then jsLess leftValue rightValue = Some False
      else if operator = ''<='' then jsLess rightValue leftValue = Some False
      else False)"

text \<open>
  The regular expressions. \<^verbatim>\<open>state\.\w+(\.\w+)*\<close> at the start of a string: what follows it
  in every pattern is a space or the end, so the path is the longest run of word
  characters and dots.
\<close>

definition matchStatePath :: "string \<Rightarrow> (string \<times> string) option" where
  "matchStatePath s =
     (case stripPrefix ''state.'' s of
        None \<Rightarrow> None
      | Some r \<Rightarrow>
          (let p = takeWhile isPathChar r in
           if isPath p then Some (p, dropWhile isPathChar r) else None))"

definition matchStatePathEnd :: "string \<Rightarrow> string option" where
  "matchStatePathEnd s =
     (case matchStatePath s of
        None \<Rightarrow> None
      | Some (p, r) \<Rightarrow> if r = [] then Some p else None)"

definition isLineTerminator :: "char \<Rightarrow> bool" where
  "isLineTerminator c = (c = CHR 0x0A \<or> c = CHR 0x0D)"

text \<open>\<^verbatim>\<open>.+$\<close>: one or more characters, none of them a line terminator (of the ASCII ones).\<close>

definition matchRest :: "string \<Rightarrow> string option" where
  "matchRest s = (if s \<noteq> [] \<and> list_all (\<lambda>c. \<not> isLineTerminator c) s then Some s else None)"

text \<open>
  \<^verbatim>\<open> (op1|op2|...) \<close> followed by the rest of the pattern, \<open>k\<close>: the alternatives are tried
  in order.
\<close>

fun matchOperator :: "(string \<Rightarrow> 'a option) \<Rightarrow> string list \<Rightarrow> string \<Rightarrow> (string \<times> 'a) option" where
  "matchOperator k [] r = None"
| "matchOperator k (operator # ops) r =
     (case stripPrefix ('' '' @ operator @ '' '') r of
        None \<Rightarrow> matchOperator k ops r
      | Some t \<Rightarrow>
          (case k t of
             None \<Rightarrow> matchOperator k ops r
           | Some x \<Rightarrow> Some (operator, x)))"

definition comparisonOps :: "string list" where
  "comparisonOps = [''==='', ''!=='', ''>'', ''<'', ''>='', ''<='']"

definition relationalOps :: "string list" where
  "relationalOps = [''<'', ''>'', ''<='', ''>='']"

definition comparisonMatch :: "string \<Rightarrow> (string \<times> string \<times> string) option" where
  "comparisonMatch s =
     (case matchStatePath s of
        None \<Rightarrow> None
      | Some (path, r) \<Rightarrow>
          (case matchOperator matchRest comparisonOps r of
             None \<Rightarrow> None
           | Some (operator, valueStr) \<Rightarrow> Some (path, operator, valueStr)))"

definition logicalMatch :: "string \<Rightarrow> string \<Rightarrow> (string \<times> string) option" where
  "logicalMatch conn s =
     (case matchStatePath s of
        None \<Rightarrow> None
      | Some (path1, r) \<Rightarrow>
          (case stripPrefix ('' '' @ conn @ '' '') r of
             None \<Rightarrow> None
           | Some t \<Rightarrow>
               (case matchStatePathEnd t of
                  None \<Rightarrow> None
                | Some path2 \<Rightarrow> Some (path1, path2))))"

definition andMatch :: "string \<Rightarrow> (string \<times> string) option" where
  "andMatch s = logicalMatch ''&&'' s"

definition orMatch :: "string \<Rightarrow> (string \<times> string) option" where
  "orMatch s = logicalMatch ''||'' s"

definition complexMatch :: "string \<Rightarrow> (string \<times> string \<times> string \<times> string) option" where
  "complexMatch s =
     (case matchStatePath s of
        None \<Rightarrow> None
      | Some (path1, r) \<Rightarrow>
          (case stripPrefix '' && '' r of
             None \<Rightarrow> None
           | Some t \<Rightarrow>
               (case matchStatePath t of
                  None \<Rightarrow> None
                | Some (path2, r2) \<Rightarrow>
                    (case matchOperator matchStatePathEnd relationalOps r2 of
                       None \<Rightarrow> None
                     | Some (operator, path3) \<Rightarrow> Some (path1, path2, operator, path3)))))"

definition propMatch :: "string \<Rightarrow> string option" where
  "propMatch s = matchStatePathEnd s"

definition isMatch :: "'a option \<Rightarrow> bool" where
  "isMatch m = (case m of None \<Rightarrow> False | Some x \<Rightarrow> True)"

definition dangerousKeywords :: "string list" where
  "dangerousKeywords = [''eval'', ''Function'', ''constructor'', ''__proto__'', ''prototype'']"

text \<open>
  \<^verbatim>\<open>isSafeExpression\<close>: the six patterns of the allow-list are the patterns
  \<^verbatim>\<open>evaluateExpression\<close> matches with, without their capture groups; then the deny-list.
\<close>

definition isSafeExpression :: "string \<Rightarrow> bool" where
  "isSafeExpression expr =
     (let trimmed = trim expr;
          isSafe = (isMatch (propMatch trimmed) \<or> isPath trimmed
                    \<or> isMatch (comparisonMatch trimmed) \<or> isMatch (andMatch trimmed)
                    \<or> isMatch (orMatch trimmed) \<or> isMatch (complexMatch trimmed));
          hasDangerousKeyword = list_ex (\<lambda>keyword. str_includes trimmed keyword) dangerousKeywords
      in isSafe \<and> \<not> hasDangerousKeyword)"

text \<open>
  \<^verbatim>\<open>evaluateExpression\<close>: \<open>Inl\<close> is the thrown
  \<^verbatim>\<open>Error(`Unable to parse expression: ${expr}`)\<close>.
\<close>

definition evaluateExpression :: "string \<Rightarrow> jsval \<Rightarrow> string + jsval" where
  "evaluateExpression expr state =
     (let trimmed0 = trim expr;
          trimmed = (if \<not> startsWith trimmed0 ''state.'' \<and> isPath trimmed0
                     then ''state.'' @ trimmed0 else trimmed0)
      in case comparisonMatch trimmed of
           Some (path, operator, valueStr) \<Rightarrow>
             Inr (Bool (compareOp operator (getNestedProperty state path) (parseValue valueStr)))
         | None \<Rightarrow>
        (case andMatch trimmed of
           Some (path1, path2) \<Rightarrow>
             Inr (Bool (truthy (getNestedProperty state path1) \<and> truthy (getNestedProperty state path2)))
         | None \<Rightarrow>
        (case orMatch trimmed of
           Some (path1, path2) \<Rightarrow>
             Inr (Bool (truthy (getNestedProperty state path1) \<or> truthy (getNestedProperty state path2)))
         | None \<Rightarrow>
        (case complexMatch trimmed of
           Some (path1, path2, operator, path3) \<Rightarrow>
             (let value1 = getNestedProperty state path1;
                  value2 = getNestedProperty state path2;
                  value3 = getNestedProperty state path3
              in if \<not> truthy value1 then Inr (Bool False)
                 else Inr (Bool (compareOp operator value2 value3)))
         | None \<Rightarrow>
        (case propMatch trimmed of
           Some path \<Rightarrow> Inr (getNestedProperty state path)
         | None \<Rightarrow> Inl (''Unable to parse expression: '' @ expr))))))"

text \<open>
  \<^verbatim>\<open>createConditionFunction\<close>. \<open>targets\<close> is the optional record in key order, \<open>fallback\<close>
  the optional node id; the result is the condition function applied to a state.
\<close>

definition fallbackResult :: "string option \<Rightarrow> string" where
  "fallbackResult fallback =
     (case fallback of
        None \<Rightarrow> ''__end__''
      | Some f \<Rightarrow> if f = [] then ''__end__'' else ''__fallback__'')"

definition targetString :: "(string \<times> string) list \<Rightarrow> string \<Rightarrow> string" where
  "targetString targets k = (case map_of targets k of None \<Rightarrow> ''undefined'' | Some v \<Rightarrow> v)"

definition optTargetTruthy :: "(string \<times> string) list option \<Rightarrow> string \<Rightarrow> bool" where
  "optTargetTruthy targets k =
     (case targets of
        None \<Rightarrow> False
      | Some tg \<Rightarrow> (case map_of tg k of None \<Rightarrow> False | Some v \<Rightarrow> v \<noteq> []))"

definition createConditionFunction ::
  "string \<Rightarrow> (string \<times> string) list option \<Rightarrow> string option \<Rightarrow> jsval \<Rightarrow> string" where
  "createConditionFunction expression targets fallback state =
     (if expression = [] \<or> trim expression = [] then jsOr fallback ''__end__''
      else if \<not> isSafeExpression expression then jsOr fallback ''__end__''
      else
        (case evaluateExpression expression state of
           Inl err \<Rightarrow> fallbackResult fallback
         | Inr result \<Rightarrow>
             (let resultStr = jsString result in
              case targets of
                Some tg \<Rightarrow>
                  if resultStr \<in> set (map fst tg) then resultStr
                  else
                    (case List.find (\<lambda>k. targetString tg k = resultStr) (map fst tg) of
                       Some keyForNode \<Rightarrow>
                         if keyForNode \<noteq> [] then keyForNode else fallbackResult fallback
                     | None \<Rightarrow> fallbackResult fallback)
              | None \<Rightarrow>
                  (case result of
                     Bool b \<Rightarrow>
                       if b \<and> optTargetTruthy targets ''true'' then ''true''
                       else fallbackResult fallback
                   | _ \<Rightarrow> fallbackResult fallback))))"

section \<open>Graph compiler (compiler.ts, nodeRegistry.ts)\<close>

record GraphNodeConfig =
  node_id :: string
  node_type :: string

record GraphEdgeConfig =
  edge_from :: string
  edge_to :: "string option"
  edge_condition :: "string option"
  edge_targets :: "(string \<times> string) list option"
  edge_fallback :: "string option"

record GraphConfig =
  cfg_graphId :: string
  cfg_nodes :: "GraphNodeConfig list option"
  cfg_edges :: "GraphEdgeConfig list option"
  cfg_tier :: "int option"

definition END :: string where
  "END = ''__end__''"

text \<open>The keys of \<^verbatim>\<open>NODE_REGISTRY\<close>: the values of the enum \<^verbatim>\<open>GraphNodeType\<close>.\<close>

definition nodeRegistryKeys :: "string list" where
  "nodeRegistryKeys =
     [''precheck'', ''fastpath'', ''context'', ''classifier'', ''router'', ''planner'',
      ''executor'', ''responder'', ''search'', ''scrape'', ''command'', ''universal'']"

text \<open>
  \<^verbatim>\<open>NODE_REGISTRY\<close> is an object literal, so its prototype is \<^verbatim>\<open>Object.prototype\<close>, and the
  operator \<^verbatim>\<open>in\<close> also finds the property names it inherits from there.
\<close>

definition objectPrototypeKeys :: "string list" where
  "objectPrototypeKeys =
     [''constructor'', ''__defineGetter__'', ''__defineSetter__'', ''hasOwnProperty'',
      ''__lookupGetter__'', ''__lookupSetter__'', ''isPrototypeOf'', ''propertyIsEnumerable'',
      ''toString'', ''valueOf'', ''__proto__'', ''toLocaleString'']"

text \<open>\<^verbatim>\<open>type in NODE_REGISTRY\<close>\<close>

definition isValidNodeType :: "string \<Rightarrow> bool" where
  "isValidNodeType t = (t \<in> set nodeRegistryKeys \<or> t \<in> set objectPrototypeKeys)"

definition truthyStr :: "string option \<Rightarrow> bool" where
  "truthyStr s = (case s of None \<Rightarrow> False | Some x \<Rightarrow> x \<noteq> [])"

fun indexOf :: "string list \<Rightarrow> string \<Rightarrow> nat" where
  "indexOf [] x = 0"
| "indexOf (y # ys) x = (if x = y then 0 else Suc (indexOf ys x))"

definition duplicateIds :: "string list \<Rightarrow> string list" where
  "duplicateIds nodeIds =
     map fst (filter (\<lambda>(ident, index). indexOf nodeIds ident \<noteq> index)
                     (zip nodeIds [0 ..< length nodeIds]))"

definition validNodeIds :: "GraphNodeConfig list \<Rightarrow> string list" where
  "validNodeIds nodes = map node_id nodes @ [''__start__'', ''__end__'', END]"

definition edgeErrors :: "string list \<Rightarrow> GraphEdgeConfig \<Rightarrow> string list" where
  "edgeErrors valid edge =
     (if edge_from edge \<in> set valid then []
      else [''Edge references unknown source node: '' @ edge_from edge])
     @ (case edge_to edge of
          None \<Rightarrow> []
        | Some t \<Rightarrow>
            if t \<noteq> [] \<and> t \<notin> set valid
            then [''Edge references unknown target node: '' @ t] else [])
     @ (case edge_targets edge of
          None \<Rightarrow> []
        | Some tg \<Rightarrow>
            concat (map (\<lambda>(key, target).
                      if target \<in> set valid then []
                      else [''Edge references unknown target in '' @ [CHR 0x27] @ key
                            @ [CHR 0x27] @ '': '' @ target]) tg))
     @ (case edge_fallback edge of
          None \<Rightarrow> []
        | Some f \<Rightarrow>
            if f \<noteq> [] \<and> f \<notin> set valid
            then [''Edge references unknown fallback node: '' @ f] else [])"

definition nonEmptyList :: "'a list option \<Rightarrow> bool" where
  "nonEmptyList xs = (case xs of None \<Rightarrow> False | Some ys \<Rightarrow> ys \<noteq> [])"

definition orEmpty :: "'a list option \<Rightarrow> 'a list" where
  "orEmpty xs = (case xs of None \<Rightarrow> [] | Some ys \<Rightarrow> ys)"

text \<open>The \<^verbatim>\<open>errors\<close> array of \<^verbatim>\<open>validateGraphConfig\<close>, in the order the checks push to it.\<close>

definition validationErrors :: "GraphConfig \<Rightarrow> string list" where
  "validationErrors config =
     (if nonEmptyList (cfg_nodes config) then [] else [''Graph must have at least one node''])
     @ (if nonEmptyList (cfg_edges config) then [] else [''Graph must have at least one edge''])
     @ concat (map (\<lambda>node.
          if isValidNodeType (node_type node) then []
          else [''Invalid node type: '' @ node_type node @ '' (node: '' @ node_id node @ '')''])
          (orEmpty (cfg_nodes config)))
     @ (case cfg_nodes config of
          None \<Rightarrow> []
        | Some nodes \<Rightarrow>
            (let nodeIds = map node_id nodes in
             if length nodeIds \<noteq> length (remdups nodeIds)
             then [''Duplicate node IDs found: '' @ join '', '' (duplicateIds nodeIds)]
             else []))
     @ (case (cfg_nodes config, cfg_edges config) of
          (Some nodes, Some edges) \<Rightarrow> concat (map (edgeErrors (validNodeIds nodes)) edges)
        | _ \<Rightarrow> [])
     @ (case cfg_tier config of
          None \<Rightarrow> []
        | Some tier \<Rightarrow>
            if tier < 0 \<or> tier > 4
            then [''Invalid tier value: '' @ showNum tier 0 @ '' (must be 0-4)''] else [])"

definition truthyList :: "string option \<Rightarrow> string list" where
  "truthyList s = (case s of None \<Rightarrow> [] | Some x \<Rightarrow> if x = [] then [] else [x])"

definition nodesWithIncoming :: "GraphEdgeConfig list \<Rightarrow> string list" where
  "nodesWithIncoming edges =
     concat (map (\<lambda>edge.
        truthyList (edge_to edge)
        @ (case edge_targets edge of None \<Rightarrow> [] | Some tg \<Rightarrow> map snd tg)
        @ truthyList (edge_fallback edge)) edges)"

definition validationWarnings :: "GraphConfig \<Rightarrow> string list" where
  "validationWarnings config =
     (case (cfg_nodes config, cfg_edges config) of
        (Some nodes, Some edges) \<Rightarrow>
          (let orphanedNodes = filter (\<lambda>ident. ident \<notin> set (nodesWithIncoming edges)
                                          \<and> ident \<noteq> ''__start__'') (map node_id nodes)
           in if orphanedNodes \<noteq> []
              then [''Orphaned nodes (no incoming edges): '' @ join '', '' orphanedNodes] else [])
      | _ \<Rightarrow> [])
     @ (case cfg_nodes config of
          None \<Rightarrow> []
        | Some nodes \<Rightarrow>
            if length nodes > 20
            then [''Large graph detected: '' @ showNum (int (length nodes)) 0
                  @ '' nodes (may impact performance)''] else [])"

datatype compile_error = GraphCompilationError string string

text \<open>
  \<^verbatim>\<open>validateGraphConfig\<close>: the warnings are logged (returned here), and one
  \<^verbatim>\<open>GraphCompilationError\<close> carries every message and the graph id.
\<close>

definition validateGraphConfig :: "GraphConfig \<Rightarrow> compile_error + string list" where
  "validateGraphConfig config =
     (let errors = validationErrors config; warnings = validationWarnings config in
      if errors \<noteq> []
      then Inl (GraphCompilationError
             (''Graph validation failed:'' @ [CHR 0x0A]
              @ join [CHR 0x0A] (map (\<lambda>e. ''  - '' @ e) errors))
             (cfg_graphId config))
      else Inr warnings)"

text \<open>
  \<^verbatim>\<open>addConditionalEdge\<close>: the branch function and the map from its results to node ids
  that are handed to the graph builder. Assigning to a key of a record replaces the value
  in place or appends the key.
\<close>

definition conditionFn :: "GraphEdgeConfig \<Rightarrow> jsval \<Rightarrow> string" where
  "conditionFn edge =
     createConditionFunction (jsOr (edge_condition edge) [])
       (Some (orEmpty (edge_targets edge))) (edge_fallback edge)"

definition targetMap :: "GraphEdgeConfig \<Rightarrow> (string \<times> string) list" where
  "targetMap edge =
     (let m0 = (case edge_targets edge of
                  Some tg \<Rightarrow> foldl (\<lambda>m (key, v). AList.update key v m) [] tg
                | None \<Rightarrow> map (\<lambda>t. (''true'', t)) (truthyList (edge_to edge)));
          m1 = foldl (\<lambda>m f. AList.update ''__fallback__'' f m) m0 (truthyList (edge_fallback edge))
      in AList.update ''__end__'' END m1)"

datatype built_edge =
    SimpleEdge string string
  | ConditionalEdge string "(string \<times> string) list"

record CompiledGraph =
  compiled_graphId :: string
  compiled_nodes :: "string list"
  compiled_edges :: "built_edge list"

definition buildEdge :: "GraphEdgeConfig \<Rightarrow> built_edge" where
  "buildEdge edge =
     (if truthyStr (edge_condition edge) \<or> edge_targets edge \<noteq> None
      then ConditionalEdge (edge_from edge) (targetMap edge)
      else SimpleEdge (edge_from edge) (jsOr (edge_to edge) END))"

text \<open>
  \<^verbatim>\<open>compileGraphFromConfig\<close>: validation, then the calls to the graph builder. The
  builder is a library; the compiled graph is recorded as the nodes and edges handed to
  it, and the library's own checks are not modelled. After validation every node type is
  in \<^verbatim>\<open>NODE_REGISTRY\<close> or inherited by it, so \<^verbatim>\<open>NODE_REGISTRY[node.type]\<close> is not falsy.
\<close>

definition compileGraphFromConfig :: "GraphConfig \<Rightarrow> compile_error + CompiledGraph" where
  "compileGraphFromConfig config =
     (case validateGraphConfig config of
        Inl e \<Rightarrow> Inl e
      | Inr warnings \<Rightarrow>
          Inr \<lparr>compiled_graphId = cfg_graphId config,
               compiled_nodes = map node_id (orEmpty (cfg_nodes config)),
               compiled_edges = map buildEdge (orEmpty (cfg_edges config))\<rparr>)"

text \<open>The conditional edge of the specification's routing scenario.\<close>

definition routeTargets :: "(string \<times> string) list" where
  "routeTargets = [(''direct'', ''respond''), (''plan'', ''planner'')]"

definition routeState :: "string \<Rightarrow> jsval" where
  "routeState r = Obj [(''data'', Obj [(''routeDecision'', Str r)])]"

definition routeEdge :: GraphEdgeConfig where
  "routeEdge = \<lparr>edge_from = ''classifier'', edge_to = None,
     edge_condition = Some ''state.data.routeDecision'',
     edge_targets = Some routeTargets, edge_fallback = Some ''planner''\<rparr>"


text \<open>
  A configuration whose only node has the type \<^verbatim>\<open>toString\<close>, a name that is not a
  \<^verbatim>\<open>GraphNodeType\<close>.
\<close>

definition inheritedTypeConfig :: GraphConfig where
  "inheritedTypeConfig =
     \<lparr>cfg_graphId = ''g1'',
      cfg_nodes = Some [\<lparr>node_id = ''a'', node_type = ''toString''\<rparr>],
      cfg_edges = Some
        [\<lparr>edge_from = ''__start__'', edge_to = Some ''a'', edge_condition = None,
          edge_targets = None, edge_fallback = None\<rparr>,
         \<lparr>edge_from = ''a'', edge_to = Some ''__end__'', edge_condition = None,
          edge_targets = None, edge_fallback = None\<rparr>],
      cfg_tier = Some 4\<rparr>"

section \<open>Step executor (stepExecutor.ts)\<close>

text \<open>
  The five executors call language models and tools, and \<^verbatim>\<open>evaluateStepCondition\<close> hands
  the text of a condition to the host's \<^verbatim>\<open>new Function\<close>. They are parameters of the model:
  \<open>hostFunction e s\<close> is the outcome of \<^verbatim>\<open>new Function('state', `return ${e}`)(s)\<close>, a value
  or a thrown error (of the constructor or of the call); an executor returns the partial
  state update of a step, a record with flat dotted keys, or throws (\<open>Inl\<close> what is thrown).

  What an executor throws is a JavaScript value: an \<^verbatim>\<open>Error\<close> object with its message in
  most cases, but not always. \<^verbatim>\<open>executeWithErrorHandling\<close> (errorHandler.ts) ends in
  \<^verbatim>\<open>throw lastError\<close>, and \<^verbatim>\<open>lastError\<close> is still \<^verbatim>\<open>null\<close> when the configured retry count is
  negative or not a number, because the loop \<^verbatim>\<open>while (attempt <= retry)\<close> never runs.

  The same wrapper can resolve to something that is not a record. With the strategy
  \<^verbatim>\<open>skip\<close> it resolves to \<^verbatim>\<open>undefined\<close>; the universal node then copies nothing and
  \<^verbatim>\<open>Object.keys(stepUpdate)\<close> throws a \<^verbatim>\<open>TypeError\<close> inside its \<^verbatim>\<open>try\<close> block, so for the node such
  a step is one that throws that \<^verbatim>\<open>TypeError\<close>, and it is represented so. A fallback value
  that is a primitive or an array is represented by the record of its own enumerable
  properties, which is what \<^verbatim>\<open>Object.assign\<close> and \<^verbatim>\<open>Object.keys\<close> read.
\<close>

type_synonym update = "(string \<times> jsval) list"

datatype thrown = ErrorObject string | ThrownValue jsval

record executors =
  hostFunction :: "string \<Rightarrow> jsval \<Rightarrow> string + jsval"
  executeNeuron :: "jsval \<Rightarrow> jsval \<Rightarrow> thrown + update"
  executeTool :: "jsval \<Rightarrow> jsval \<Rightarrow> thrown + update"
  executeTransform :: "jsval \<Rightarrow> jsval \<Rightarrow> thrown + update"
  executeConditional :: "jsval \<Rightarrow> jsval \<Rightarrow> thrown + update"
  executeLoop :: "jsval \<Rightarrow> jsval \<Rightarrow> thrown + update"

record UniversalStep =
  step_type :: string
  step_config :: jsval
  step_condition :: "string option"

text \<open>\<^verbatim>\<open>trimmed.slice(2, -2)\<close>\<close>

definition slice2 :: "string \<Rightarrow> string" where
  "slice2 s = take (length s - 4) (drop 2 s)"

definition evaluateStepCondition :: "executors \<Rightarrow> string \<Rightarrow> jsval \<Rightarrow> bool" where
  "evaluateStepCondition ex condition state =
     (let trimmed = trim condition in
      if startsWith trimmed ''{{'' \<and> endsWith trimmed ''}}'' then
        (let expression = trim (slice2 trimmed) in
         case hostFunction ex expression state of
           Inl err \<Rightarrow> False
         | Inr v \<Rightarrow> truthy v)
      else False)"

definition executeStep :: "executors \<Rightarrow> UniversalStep \<Rightarrow> jsval \<Rightarrow> thrown + update" where
  "executeStep ex step state =
     (if truthyStr (step_condition step)
         \<and> \<not> evaluateStepCondition ex (jsOr (step_condition step) []) state
      then Inr []
      else if step_type step = ''neuron'' then executeNeuron ex (step_config step) state
      else if step_type step = ''tool'' then executeTool ex (step_config step) state
      else if step_type step = ''transform'' then executeTransform ex (step_config step) state
      else if step_type step = ''conditional'' then executeConditional ex (step_config step) state
      else if step_type step = ''loop'' then executeLoop ex (step_config step) state
      else Inl (ErrorObject (''Unknown step type: '' @ step_type step)))"

text \<open>
  Executors for the examples: the host evaluates the one expression \<^verbatim>\<open>state.ready\<close> and
  rejects every other text as a syntax error, a transform step sets \<^verbatim>\<open>data.done\<close>, and
  every other executor fails: two with an \<^verbatim>\<open>Error\<close>, one by throwing \<^verbatim>\<open>null\<close>, one by
  throwing a string.
\<close>

definition exampleExecutors :: executors where
  "exampleExecutors =
     \<lparr>hostFunction = (\<lambda>e s. if e = ''state.ready'' then Inr (getNestedProperty s ''ready'')
                             else Inl ''SyntaxError''),
      executeNeuron = (\<lambda>c s. Inl (ErrorObject ''Neuron not available'')),
      executeTool = (\<lambda>c s. Inl (ErrorObject ''Tool not found: web_search'')),
      executeTransform = (\<lambda>c s. Inr [(''data.done'', Bool True)]),
      executeConditional = (\<lambda>c s. Inl (ThrownValue Null)),
      executeLoop = (\<lambda>c s. Inl (ThrownValue (Str ''stop'')))\<rparr>"

definition guardedStep :: "string \<Rightarrow> UniversalStep" where
  "guardedStep c = \<lparr>step_type = ''transform'', step_config = Null, step_condition = Some c\<rparr>"

text \<open>A state for the examples of step conditions.\<close>

definition readyState :: "bool \<Rightarrow> jsval" where
  "readyState b = Obj [(''ready'', Bool b), (''x'', Num 1 0)]"


section \<open>Universal node (universalNode.ts)\<close>

text \<open>
  Records are updated as JavaScript objects are: \<open>AList.update\<close> replaces the value of a
  key in place or appends the key. Values are trees: two updates never share an object,
  so a conversion does not change the updates it reads.
\<close>

definition objectAssign :: "update \<Rightarrow> update \<Rightarrow> update" where
  "objectAssign target source = foldl (\<lambda>m (k, v). AList.update k v m) target source"

text \<open>\<^verbatim>\<open>{...v}\<close>\<close>

definition spread :: "jsval \<Rightarrow> update" where
  "spread v =
     (case v of
        Obj kvs \<Rightarrow> kvs
      | Arr xs \<Rightarrow> zip (map showNat [0 ..< length xs]) xs
      | Str s \<Rightarrow> zip (map showNat [0 ..< length s]) (map (\<lambda>c. Str [c]) s)
      | _ \<Rightarrow> [])"

text \<open>
  What the node itself raises: an \<^verbatim>\<open>Error\<close> it creates, whatever the registry of stored
  configurations throws, the \<^verbatim>\<open>TypeError\<close> of a conversion, and the \<^verbatim>\<open>TypeError\<close> of reading
  \<^verbatim>\<open>error.message\<close> in the \<^verbatim>\<open>catch\<close> block when the caught value is \<^verbatim>\<open>null\<close> or \<^verbatim>\<open>undefined\<close>.
\<close>

datatype node_error =
    ThrownError string
  | Rethrown thrown
  | ConversionTypeError
  | MessageTypeError
  | OutsideModel

text \<open>
  The inner loop of \<^verbatim>\<open>convertFlatToNested\<close> for one dotted key: walk the parts but the
  last, creating \<^verbatim>\<open>{}\<close> where a part is missing, and assign at the last part. Going through
  a primitive is a \<^verbatim>\<open>TypeError\<close> (of the operator \<^verbatim>\<open>in\<close>, or of the assignment, the module
  being strict code). Going through an array would give the array named properties,
  which a \<open>jsval\<close> cannot hold: the model reports it as \<open>OutsideModel\<close>.
\<close>

fun setPath :: "update \<Rightarrow> string list \<Rightarrow> jsval \<Rightarrow> node_error + update" where
  "setPath current [] v = Inr current"
| "setPath current [lastPart] v = Inr (AList.update lastPart v current)"
| "setPath current (part # rest) v =
     (case map_of current part of
        None \<Rightarrow>
          (case setPath [] rest v of
             Inl e \<Rightarrow> Inl e
           | Inr child \<Rightarrow> Inr (AList.update part (Obj child) current))
      | Some (Obj kvs) \<Rightarrow>
          (case setPath kvs rest v of
             Inl e \<Rightarrow> Inl e
           | Inr child \<Rightarrow> Inr (AList.update part (Obj child) current))
      | Some (Arr xs) \<Rightarrow> Inl OutsideModel
      | Some other \<Rightarrow> Inl ConversionTypeError)"

fun convertEntries :: "update \<Rightarrow> update \<Rightarrow> node_error + update" where
  "convertEntries nested [] = Inr nested"
| "convertEntries nested ((key, v) # rest) =
     (if CHR ''.'' \<notin> set key then convertEntries (AList.update key v nested) rest
      else (case setPath nested (splitOn CHR ''.'' key) v of
              Inl e \<Rightarrow> Inl e
            | Inr nested' \<Rightarrow> convertEntries nested' rest))"

definition convertFlatToNested :: "update \<Rightarrow> node_error + update" where
  "convertFlatToNested flat = convertEntries [] flat"

definition orEmptyObject :: "jsval \<Rightarrow> jsval" where
  "orEmptyObject v = (if truthy v then v else Obj [])"

text \<open>\<^verbatim>\<open>deepMergeObjects\<close>: the loop over the keys of \<open>source\<close>, with \<open>result\<close> as it grows.\<close>

fun mergeInto :: "update \<Rightarrow> update \<Rightarrow> update" where
  "mergeInto result [] = result"
| "mergeInto result ((key, Obj kvs) # rest) =
     mergeInto
       (AList.update key
          (Obj (mergeInto (spread (orEmptyObject (lookupKey result key))) kvs)) result)
       rest"
| "mergeInto result ((key, v) # rest) = mergeInto (AList.update key v result) rest"

definition deepMergeObjects :: "jsval \<Rightarrow> update \<Rightarrow> update" where
  "deepMergeObjects target source = mergeInto (spread target) source"

record UniversalNodeConfig =
  unc_steps :: "UniversalStep list option"
  unc_type :: "string option"
  unc_config :: "jsval option"
  unc_nodeId :: "string option"
  unc_name :: "string option"

text \<open>
  What the node takes from its surroundings: the step executors, the registry of stored
  node configurations (its answer is a configuration, \<^verbatim>\<open>null\<close>, or a rejection) and the
  helper that formats the system prefix.
\<close>

record node_env =
  env_executors :: executors
  getUniversalNode :: "string \<Rightarrow> thrown + UniversalNodeConfig option"
  getNodeSystemPrefix :: "jsval \<Rightarrow> string \<Rightarrow> string"

text \<open>\<^verbatim>\<open>currentNodeCount + 1\<close>\<close>

definition plusOne :: "jsval \<Rightarrow> jsval" where
  "plusOne v =
     (case toPrimitive v of
        Str s \<Rightarrow> Str (s @ ''1'')
      | p \<Rightarrow> (case toNumber p of
                 None \<Rightarrow> Undefined
               | Some n \<Rightarrow> (case normNum (fst n + 10 ^ snd n) (snd n) of (m, s) \<Rightarrow> Num m s)))"

definition currentNodeCount :: "jsval \<Rightarrow> jsval" where
  "currentNodeCount state =
     (let c = getProp state ''nodeCounter'' in if truthy c then c else Num 1 0)"

definition initialUpdates :: "jsval \<Rightarrow> update" where
  "initialUpdates state = [(''nodeCounter'', plusOne (currentNodeCount state))]"

definition nodeName :: "UniversalNodeConfig \<Rightarrow> string" where
  "nodeName nodeConfig =
     (if truthyStr (unc_name nodeConfig) then jsOr (unc_name nodeConfig) []
      else jsOr (unc_nodeId nodeConfig) ''Universal Node'')"

text \<open>
  The state object after \<^verbatim>\<open>state.systemPrefix = systemPrefix\<close> and, in the loop, after
  \<^verbatim>\<open>state._currentStepIndex = i\<close>.
\<close>

definition withSystemPrefix :: "node_env \<Rightarrow> UniversalNodeConfig \<Rightarrow> jsval \<Rightarrow> jsval" where
  "withSystemPrefix env nodeConfig state =
     Obj (AList.update ''systemPrefix''
            (Str (getNodeSystemPrefix env (currentNodeCount state) (nodeName nodeConfig)))
            (spread state))"

definition withStepIndex :: "jsval \<Rightarrow> nat \<Rightarrow> jsval" where
  "withStepIndex state i = Obj (AList.update ''_currentStepIndex'' (Num (int i) 0) (spread state))"

text \<open>
  \<^verbatim>\<open>error.message\<close> in the \<^verbatim>\<open>catch\<close> block. Reading it from \<^verbatim>\<open>null\<close> or \<^verbatim>\<open>undefined\<close> throws;
  any other value has the property or gives \<^verbatim>\<open>undefined\<close>.
\<close>

definition nullish :: "thrown \<Rightarrow> bool" where
  "nullish error = (error = ThrownValue Null \<or> error = ThrownValue Undefined)"

fun error_message :: "thrown \<Rightarrow> jsval" where
  "error_message (ErrorObject m) = Str m"
| "error_message (ThrownValue v) = getProp v ''message''"

text \<open>\<^verbatim>\<open>`Step ${stepNumber} (${step.type}) failed: ${error.message}`\<close>\<close>

definition stepErrorMessage :: "nat \<Rightarrow> UniversalStep \<Rightarrow> thrown \<Rightarrow> string" where
  "stepErrorMessage i step error =
     ''Step '' @ showNat (Suc i) @ '' ('' @ step_type step @ '') failed: ''
       @ jsString (error_message error)"

text \<open>The object the \<^verbatim>\<open>catch\<close> block returns.\<close>

definition errorDelta :: "update \<Rightarrow> string \<Rightarrow> update" where
  "errorDelta nestedUpdates errorMessage =
     AList.update ''data''
       (Obj (AList.update ''nextGraph'' (Str ''error_handler'')
              (AList.update ''error'' (Str errorMessage)
                 (spread (lookupKey nestedUpdates ''data'')))))
       nestedUpdates"

text \<open>
  The loop over the steps from index \<open>i\<close> on, with the updates accumulated so far. A
  conversion that throws inside \<^verbatim>\<open>try\<close> is caught, and the conversion in the \<^verbatim>\<open>catch\<close> block
  throws again. The \<^verbatim>\<open>catch\<close> block reads \<^verbatim>\<open>error.message\<close> first; when that throws, the node
  raises. The values that the \<^verbatim>\<open>try\<close> block logs after a step are trees, on which
  \<^verbatim>\<open>JSON.stringify\<close> gives a string.
\<close>

fun runSteps :: "node_env \<Rightarrow> jsval \<Rightarrow> UniversalStep list \<Rightarrow> nat \<Rightarrow> update \<Rightarrow> node_error + update" where
  "runSteps env state [] i stateUpdates = convertFlatToNested stateUpdates"
| "runSteps env state (step # steps) i stateUpdates =
     (case convertFlatToNested stateUpdates of
        Inl e \<Rightarrow> Inl e
      | Inr nestedUpdates \<Rightarrow>
          (case executeStep (env_executors env) step
                  (Obj (deepMergeObjects (withStepIndex state i) nestedUpdates)) of
             Inl error \<Rightarrow>
               (if nullish error then Inl MessageTypeError
                else
                  (case convertFlatToNested stateUpdates of
                     Inl e \<Rightarrow> Inl e
                   | Inr nested \<Rightarrow> Inr (errorDelta nested (stepErrorMessage i step error))))
           | Inr stepUpdate \<Rightarrow>
               runSteps env state steps (Suc i) (objectAssign stateUpdates stepUpdate)))"

definition truthyOpt :: "jsval option \<Rightarrow> bool" where
  "truthyOpt v = (case v of None \<Rightarrow> False | Some x \<Rightarrow> truthy x)"

text \<open>
  The first part of \<^verbatim>\<open>universalNode\<close>: a configuration that only names a stored
  configuration (\<^verbatim>\<open>nodeId\<close> without \<^verbatim>\<open>steps\<close>) is replaced by the stored one.
\<close>

definition resolveConfig :: "node_env \<Rightarrow> UniversalNodeConfig \<Rightarrow> node_error + UniversalNodeConfig" where
  "resolveConfig env nodeConfig =
     (if truthyStr (unc_nodeId nodeConfig) \<and> unc_steps nodeConfig = None then
        (case getUniversalNode env (jsOr (unc_nodeId nodeConfig) []) of
           Inl e \<Rightarrow> Inl (Rethrown e)
         | Inr None \<Rightarrow> Inl (ThrownError (''[UniversalNode] Config not found in registry: ''
                        @ jsOr (unc_nodeId nodeConfig) []))
         | Inr (Some loadedConfig) \<Rightarrow> Inr loadedConfig)
      else Inr nodeConfig)"

text \<open>
  The validation of the configuration and its normal form, the list of steps: the
  \<^verbatim>\<open>steps\<close> array, or the one step made of \<^verbatim>\<open>type\<close> and \<^verbatim>\<open>config\<close>.
\<close>

definition normalizeSteps :: "UniversalNodeConfig \<Rightarrow> node_error + UniversalStep list" where
  "normalizeSteps nodeConfig =
     (if unc_steps nodeConfig = None
         \<and> (\<not> truthyStr (unc_type nodeConfig) \<or> \<not> truthyOpt (unc_config nodeConfig))
      then Inl (ThrownError
        ''[UniversalNode] Invalid config: must provide either \"steps\" array or \"type\" + \"config\"'')
      else
        (let steps = (case unc_steps nodeConfig of
                        Some ss \<Rightarrow> ss
                      | None \<Rightarrow> [\<lparr>step_type = jsOr (unc_type nodeConfig) [],
                                    step_config = (case unc_config nodeConfig of
                                                     Some c \<Rightarrow> c | None \<Rightarrow> Undefined),
                                    step_condition = None\<rparr>])
         in if steps = []
            then Inl (ThrownError ''[UniversalNode] Invalid config: steps array cannot be empty'')
            else Inr steps))"

text \<open>
  \<^verbatim>\<open>universalNode\<close>, given the configuration the compiler injected into the state: the
  configuration is resolved, the system prefix is put into the state, the configuration
  is validated and normalised, and the steps run.
\<close>

definition universalNode :: "node_env \<Rightarrow> UniversalNodeConfig \<Rightarrow> jsval \<Rightarrow> node_error + update" where
  "universalNode env nodeConfig state =
     (case resolveConfig env nodeConfig of
        Inl e \<Rightarrow> Inl e
      | Inr config \<Rightarrow>
          (case normalizeSteps config of
             Inl e \<Rightarrow> Inl e
           | Inr steps \<Rightarrow>
               runSteps env (withSystemPrefix env config state) steps 0 (initialUpdates state)))"

text \<open>
  The updates accumulated when every step of a list has completed, starting at index \<open>i\<close>
  with the updates \<open>stateUpdates\<close>; \<open>None\<close> when one of them (or a conversion) throws.
\<close>

fun completedUpdates :: "node_env \<Rightarrow> jsval \<Rightarrow> UniversalStep list \<Rightarrow> nat \<Rightarrow> update \<Rightarrow> update option" where
  "completedUpdates env state [] i stateUpdates = Some stateUpdates"
| "completedUpdates env state (step # steps) i stateUpdates =
     (case convertFlatToNested stateUpdates of
        Inl e \<Rightarrow> None
      | Inr nestedUpdates \<Rightarrow>
          (case executeStep (env_executors env) step
                  (Obj (deepMergeObjects (withStepIndex state i) nestedUpdates)) of
             Inl error \<Rightarrow> None
           | Inr stepUpdate \<Rightarrow>
               completedUpdates env state steps (Suc i) (objectAssign stateUpdates stepUpdate)))"

text \<open>
  An environment and nodes for the examples. The node \<open>failingNode\<close> has a transform step
  and then a step of an unknown type; it is also what the registry stores under
  \<^verbatim>\<open>stored\<close>, and \<open>referenceNode\<close> names it. The nodes \<open>singleNode\<close> and \<open>nullNode\<close> are in the
  single-step form: a tool step, which fails with an \<^verbatim>\<open>Error\<close>, and a conditional step,
  which throws \<^verbatim>\<open>null\<close>.
\<close>

definition transformStep :: UniversalStep where
  "transformStep = \<lparr>step_type = ''transform'', step_config = Null, step_condition = None\<rparr>"

definition bogusStep :: UniversalStep where
  "bogusStep = \<lparr>step_type = ''bogus'', step_config = Null, step_condition = None\<rparr>"

definition failingNode :: UniversalNodeConfig where
  "failingNode =
     \<lparr>unc_steps = Some [transformStep, bogusStep], unc_type = None, unc_config = None,
      unc_nodeId = None, unc_name = Some ''demo''\<rparr>"



definition nullNode :: UniversalNodeConfig where
  "nullNode =
     \<lparr>unc_steps = None, unc_type = Some ''conditional'',
      unc_config = Some (Obj [(''condition'', Str ''state.ready'')]),
      unc_nodeId = None, unc_name = None\<rparr>"

definition exampleEnv :: node_env where
  "exampleEnv =
     \<lparr>env_executors = exampleExecutors,
      getUniversalNode = (\<lambda>n. if n = ''stored'' then Inr (Some failingNode) else Inr None),
      getNodeSystemPrefix = (\<lambda>c n. ''NODE: '' @ n)\<rparr>"

section \<open>Template renderer (templateRenderer.ts)\<close>

text \<open>
  The renderer's own \<^verbatim>\<open>getNestedProperty\<close>:
  \<^verbatim>\<open>path.split('.').reduce((current, key) => current?.[key], obj)\<close>.
\<close>

definition optionalGet :: "jsval \<Rightarrow> string \<Rightarrow> jsval" where
  "optionalGet current key =
     (if current = Null \<or> current = Undefined then Undefined else getProp current key)"

definition getNestedProperty_tr :: "jsval \<Rightarrow> string \<Rightarrow> jsval" where
  "getNestedProperty_tr obj path = foldl optionalGet obj (splitOn CHR ''.'' path)"

text \<open>
  \<^verbatim>\<open>JSON.stringify\<close> on a value tree; \<open>None\<close> is its result \<^verbatim>\<open>undefined\<close>. On a tree it always
  returns; the objects on which it throws (a cyclic structure, a \<^verbatim>\<open>BigInt\<close>) are not values
  of the model, and nothing is stated here about rendering them.
\<close>

definition hexDigit :: "nat \<Rightarrow> char" where
  "hexDigit d = ''0123456789abcdef'' ! d"

definition jsonEscape :: "char \<Rightarrow> string" where
  "jsonEscape c =
     (let n = (of_char c :: nat) in
      if c = CHR 0x22 then [CHR 0x5C, CHR 0x22]
      else if c = CHR 0x5C then [CHR 0x5C, CHR 0x5C]
      else if n = 8 then [CHR 0x5C, CHR ''b'']
      else if n = 12 then [CHR 0x5C, CHR ''f'']
      else if n = 10 then [CHR 0x5C, CHR ''n'']
      else if n = 13 then [CHR 0x5C, CHR ''r'']
      else if n = 9 then [CHR 0x5C, CHR ''t'']
      else if n < 32 then [CHR 0x5C, CHR ''u'', CHR ''0'', CHR ''0'', hexDigit (n div 16), hexDigit (n mod 16)]
      else [c])"

definition jsonQuote :: "string \<Rightarrow> string" where
  "jsonQuote s = [CHR 0x22] @ concat (map jsonEscape s) @ [CHR 0x22]"

fun jsonStringify :: "jsval \<Rightarrow> string option"
  and jsonElements :: "jsval list \<Rightarrow> string list"
  and jsonMembers :: "(string \<times> jsval) list \<Rightarrow> string list" where
  "jsonStringify Undefined = None"
| "jsonStringify Null = Some ''null''"
| "jsonStringify (Bool b) = Some (if b then ''true'' else ''false'')"
| "jsonStringify (Num m s) = Some (showNum m s)"
| "jsonStringify (Str s) = Some (jsonQuote s)"
| "jsonStringify (Arr xs) = Some (''['' @ join '','' (jsonElements xs) @ '']'')"
| "jsonStringify (Obj kvs) = Some (''{'' @ join '','' (jsonMembers kvs) @ ''}'')"
| "jsonElements [] = []"
| "jsonElements (x # xs) =
     (case jsonStringify x of None \<Rightarrow> ''null'' | Some t \<Rightarrow> t) # jsonElements xs"
| "jsonMembers [] = []"
| "jsonMembers ((k, v) # kvs) =
     (case jsonStringify v of
        None \<Rightarrow> jsonMembers kvs
      | Some t \<Rightarrow> (jsonQuote k @ '':'' @ t) # jsonMembers kvs)"

text \<open>\<^verbatim>\<open>typeof value === 'object' && value !== null\<close>\<close>

definition isObjectValue :: "jsval \<Rightarrow> bool" where
  "isObjectValue v = (case v of Arr xs \<Rightarrow> True | Obj kvs \<Rightarrow> True | _ \<Rightarrow> False)"

text \<open>
  \<^verbatim>\<open>/\{\{state\.(\w+(?:\.\w+)*)\}\}/\<close> at the start of a string: the path and what follows the
  match. The path is followed by \<^verbatim>\<open>}}\<close>, so it is the longest run of word characters and
  dots.
\<close>

definition matchPlaceholder :: "string \<Rightarrow> (string \<times> string) option" where
  "matchPlaceholder s =
     (case stripPrefix ''{{state.'' s of
        None \<Rightarrow> None
      | Some r \<Rightarrow>
          (let p = takeWhile isPathChar r in
           if isPath p then
             (case stripPrefix ''}}'' (dropWhile isPathChar r) of
                None \<Rightarrow> None
              | Some rest \<Rightarrow> Some (p, rest))
           else None))"

definition notFoundWarning :: "string \<Rightarrow> string" where
  "notFoundWarning path = ''[TemplateRenderer] Variable not found: state.'' @ path"

text \<open>
  The callback of \<^verbatim>\<open>template.replace\<close>: the text that replaces a placeholder, and the
  warnings it logs.
\<close>

definition replacePlaceholder :: "jsval \<Rightarrow> string \<Rightarrow> string \<times> string list" where
  "replacePlaceholder state path =
     (let v = getNestedProperty_tr state path in
      if v \<noteq> Undefined then
        (if isObjectValue v
         then ((case jsonStringify v of None \<Rightarrow> ''undefined'' | Some t \<Rightarrow> t), [])
         else (jsString v, []))
      else
        (let dataValue = (if \<not> startsWith path ''data.''
                          then getNestedProperty_tr state (''data.'' @ path) else Undefined)
         in if \<not> startsWith path ''data.'' \<and> dataValue \<noteq> Undefined
            then (jsString dataValue, [])
            else (''{{state.'' @ path @ ''}}'', [notFoundWarning path])))"

text \<open>
  \<^verbatim>\<open>renderTemplate\<close>: \<^verbatim>\<open>replace\<close> with a global pattern scans from the left and goes on
  behind each match. The result is the rendered text and the warnings logged, in order.
\<close>

function renderTemplate :: "string \<Rightarrow> jsval \<Rightarrow> string \<times> string list" where
  "renderTemplate [] state = ([], [])"
| "renderTemplate (c # cs) state =
     (case matchPlaceholder (c # cs) of
        Some (path, rest) \<Rightarrow>
          (case replacePlaceholder state path of
             (replacement, warns) \<Rightarrow>
               (case renderTemplate rest state of
                  (out, ws) \<Rightarrow> (replacement @ out, warns @ ws)))
      | None \<Rightarrow>
          (case renderTemplate cs state of (out, ws) \<Rightarrow> (c # out, ws)))"
  by pat_completeness auto
termination
proof (relation "measure (\<lambda>(s, st). length s)")
  show "wf (measure (\<lambda>(s, st). length s))" by simp
next
  fix c cs and state :: jsval and x2 path rest
  assume m: "matchPlaceholder (c # cs) = Some x2" and x: "(path, rest) = x2"
  have sp: "stripPrefix p s = Some r \<Longrightarrow> length s = length p + length r" for p s r
    by (induction p s rule: stripPrefix.induct) (auto split: if_splits)
  from m x obtain r where r: "stripPrefix ''{{state.'' (c # cs) = Some r"
    and e: "stripPrefix ''}}'' (dropWhile isPathChar r) = Some rest"
    by (auto simp: matchPlaceholder_def Let_def split: option.splits if_splits)
  from sp [OF r] have "length r < length (c # cs)" by simp
  moreover from sp [OF e] have "length rest \<le> length (dropWhile isPathChar r)" by simp
  moreover have "length (dropWhile isPathChar r) \<le> length r" by (rule length_dropWhile_le)
  ultimately show "((rest, state), c # cs, state) \<in> measure (\<lambda>(s, st). length s)" by simp
next
  fix c cs and state :: jsval
  show "((cs, state), c # cs, state) \<in> measure (\<lambda>(s, st). length s)" by simp
qed

text \<open>
  A text contains a placeholder when the pattern matches somewhere in it: a part of the
  text is \<^verbatim>\<open>{{state.\<close>, a path, and \<^verbatim>\<open>}}\<close>.
\<close>

definition containsPlaceholder :: "string \<Rightarrow> bool" where
  "containsPlaceholder s =
     (\<exists>before path after. isPath path \<and> s = before @ ''{{state.'' @ path @ ''}}'' @ after)"

text \<open>States for the examples of rendering.\<close>

definition aliceState :: jsval where
  "aliceState =
     Obj [(''user'', Obj [(''name'', Str ''Alice''), (''tags'', Arr [Str ''a'', Num 15 1])]),
          (''data'', Obj [(''topic'', Str ''cats''),
                          (''data'', Obj [(''x'', Str ''v'')])])]"

section \<open>Tool process pool (stdio-pool.ts, client-stdio.ts)\<close>

text \<open>
  A child process is modelled by what it answers: to \<^verbatim>\<open>tools/list\<close> the names of its tools,
  to \<^verbatim>\<open>tools/call\<close> a result; \<open>Inl\<close> is a rejected request (an error response, a timeout,
  the exit of the child). The pool's calls return their result together with the requests
  handed to \<^verbatim>\<open>sendRequest\<close>, in order.
\<close>

record McpClientStdio =
  toolsListResponse :: "string + string list"
  toolsCallResponse :: "string \<Rightarrow> jsval \<Rightarrow> string + jsval"

record rpc_request =
  rpc_server :: string
  rpc_method :: string
  rpc_params :: "(string \<times> jsval) list"

text \<open>\<^verbatim>\<open>McpClientStdio.listTools\<close> and \<^verbatim>\<open>McpClientStdio.callTool\<close>, with the request each sends.\<close>

definition client_listTools :: "string \<Rightarrow> McpClientStdio \<Rightarrow> (string + string list) \<times> rpc_request" where
  "client_listTools server client =
     (toolsListResponse client,
      \<lparr>rpc_server = server, rpc_method = ''tools/list'', rpc_params = []\<rparr>)"

definition client_callTool ::
  "string \<Rightarrow> McpClientStdio \<Rightarrow> string \<Rightarrow> jsval \<Rightarrow> (string + jsval) \<times> rpc_request" where
  "client_callTool server client name args =
     (toolsCallResponse client name args,
      \<lparr>rpc_server = server, rpc_method = ''tools/call'',
       rpc_params = [(''name'', Str name), (''arguments'', args)]\<rparr>)"

text \<open>
  The loop of \<^verbatim>\<open>StdioServerPool.callTool\<close> over the clients in the order of the map. The
  \<^verbatim>\<open>try\<close> block covers the tool call as well: a rejected call is logged and the loop goes
  on to the next server.
\<close>

fun callToolLoop ::
  "(string \<times> McpClientStdio) list \<Rightarrow> string \<Rightarrow> jsval \<Rightarrow> (string + jsval) \<times> rpc_request list" where
  "callToolLoop [] toolName args = (Inl (''Tool not found: '' @ toolName), [])"
| "callToolLoop ((serverName, client) # rest) toolName args =
     (case client_listTools serverName client of
        (Inl err, listReq) \<Rightarrow>
          (case callToolLoop rest toolName args of (r, reqs) \<Rightarrow> (r, listReq # reqs))
      | (Inr tools, listReq) \<Rightarrow>
          if toolName \<in> set tools then
            (case client_callTool serverName client toolName args of
               (Inr result, callReq) \<Rightarrow> (Inr result, [listReq, callReq])
             | (Inl err, callReq) \<Rightarrow>
                 (case callToolLoop rest toolName args of
                    (r, reqs) \<Rightarrow> (r, listReq # callReq # reqs)))
          else
            (case callToolLoop rest toolName args of (r, reqs) \<Rightarrow> (r, listReq # reqs)))"

text \<open>\<^verbatim>\<open>StdioServerPool.callTool(toolName, args, meta)\<close>: the body never mentions \<open>meta\<close>.\<close>

definition pool_callTool ::
  "(string \<times> McpClientStdio) list \<Rightarrow> string \<Rightarrow> jsval \<Rightarrow> jsval option
     \<Rightarrow> (string + jsval) \<times> rpc_request list" where
  "pool_callTool clients toolName args meta = callToolLoop clients toolName args"

definition webClient :: McpClientStdio where
  "webClient =
     \<lparr>toolsListResponse = Inr [''web_search'', ''scrape_url''],
      toolsCallResponse = (\<lambda>name args. Inr (Obj [(''content'', Arr [])]))\<rparr>"

definition searchArgs :: jsval where
  "searchArgs = Obj [(''query'', Str ''cats'')]"

definition callMeta :: jsval where
  "callMeta = Obj [(''conversationId'', Str ''c1''), (''generationId'', Str ''g1''),
                   (''messageId'', Str ''m1'')]"

section \<open>Orchestrator front door (respond.ts)\<close>

text \<open>
  \<^verbatim>\<open>respond\<close> up to the point where the initial state is handed to the compiled graph. Its
  collaborators are parameters: the user collection, the graph registry, the logger's
  \<^verbatim>\<open>startGeneration\<close> (which yields no id when a generation is in progress for the
  conversation), the id generators and the outcome of the \<^verbatim>\<open>store_message\<close> tool call. The
  result comes with the effects of the call on its collaborators, in order.
\<close>

record user_settings =
  us_accountLevel :: "int option"
  us_defaultNeuronId :: "string option"
  us_defaultWorkerNeuronId :: "string option"
  us_defaultGraphId :: "string option"

datatype settings_lookup = SettingsThrow | SettingsMissing | SettingsFound user_settings

record graph_error =
  ge_name :: string
  ge_message :: string

record respond_env =
  loadUser :: "string \<Rightarrow> settings_lookup"
  getGraph :: "string \<Rightarrow> string \<Rightarrow> graph_error + string"
  startGeneration :: "string \<Rightarrow> string option"
  generateConversationId :: "string \<Rightarrow> string"
  freshUserMessageId :: string
  freshAssistantMessageId :: string
  storeMessageError :: "string option"

record InvokeOptions =
  opt_userId :: "string option"
  opt_graphId :: "string option"
  opt_conversationId :: "string option"
  opt_messageId :: "string option"
  opt_userMessageId :: "string option"
  opt_stream :: bool

record initial_state =
  is_message :: string
  is_conversationId :: string
  is_generationId :: string
  is_messageId :: "string option"
  is_userId :: string
  is_accountTier :: int
  is_defaultNeuronId :: string
  is_defaultWorkerNeuronId :: string

datatype effect =
    GetGraph string string
  | StartGeneration string
  | LoggerLog string string
  | CallMcpTool string "(string \<times> string) list"
  | StreamThroughGraph string initial_state
  | GraphInvoke string initial_state

datatype respond_error = RespondError string

definition DEFAULT_GRAPH_ID :: string where
  "DEFAULT_GRAPH_ID = ''red-assistant''"

definition settingsOf :: "settings_lookup \<Rightarrow> int \<times> string \<times> string \<times> string" where
  "settingsOf l =
     (case l of
        SettingsFound u \<Rightarrow>
          ((case us_accountLevel u of None \<Rightarrow> 4 | Some t \<Rightarrow> t),
           jsOr (us_defaultNeuronId u) ''red-neuron'',
           jsOr (us_defaultWorkerNeuronId u) ''red-neuron'',
           jsOr (us_defaultGraphId u) DEFAULT_GRAPH_ID)
      | _ \<Rightarrow> (4, ''red-neuron'', ''red-neuron'', DEFAULT_GRAPH_ID))"

definition respond_conversationId :: "respond_env \<Rightarrow> string \<Rightarrow> InvokeOptions \<Rightarrow> string" where
  "respond_conversationId env message options =
     jsOr (opt_conversationId options) (generateConversationId env message)"

definition respond_userId :: "InvokeOptions \<Rightarrow> string" where
  "respond_userId options = jsOr (opt_userId options) []"

text \<open>\<^verbatim>\<open>options.graphId || defaultGraphId\<close>, the default being the user's or the system's.\<close>

definition respond_graphId :: "respond_env \<Rightarrow> InvokeOptions \<Rightarrow> string" where
  "respond_graphId env options =
     (case settingsOf (loadUser env (respond_userId options)) of
        (accountTier, defaultNeuronId, defaultWorkerNeuronId, defaultGraphId) \<Rightarrow>
          jsOr (opt_graphId options) defaultGraphId)"

text \<open>\<^verbatim>\<open>String(error)\<close>\<close>

definition errorString :: "graph_error \<Rightarrow> string" where
  "errorString e = ge_name e @ '': '' @ ge_message e"

text \<open>The graph for the request, with the fall-back to the system default graph.\<close>

definition loadGraph ::
  "respond_env \<Rightarrow> string \<Rightarrow> string \<Rightarrow> (respond_error + string) \<times> effect list" where
  "loadGraph env graphId userId =
     (case getGraph env graphId userId of
        Inr compiled \<Rightarrow> (Inr compiled, [GetGraph graphId userId])
      | Inl err \<Rightarrow>
          (let isAccessDenied = (ge_name err = ''GraphAccessDeniedError''
                                 \<or> str_includes (ge_message err) ''requires tier'');
               isNotFound = (ge_name err = ''GraphNotFoundError''
                             \<or> str_includes (ge_message err) ''not found'')
           in if isAccessDenied \<or> isNotFound then
                (case getGraph env DEFAULT_GRAPH_ID userId of
                   Inr compiled \<Rightarrow>
                     (Inr compiled, [GetGraph graphId userId, GetGraph DEFAULT_GRAPH_ID userId])
                 | Inl fallbackError \<Rightarrow>
                     (Inl (RespondError (''Failed to load graph '' @ [CHR 0x27] @ graphId @ [CHR 0x27]
                              @ '' and fallback failed: '' @ errorString fallbackError)),
                      [GetGraph graphId userId, GetGraph DEFAULT_GRAPH_ID userId]))
              else (Inl (RespondError (''Failed to load graph '' @ [CHR 0x27] @ graphId @ [CHR 0x27]
                                       @ '': '' @ errorString err)),
                    [GetGraph graphId userId])))"

text \<open>
  The part of \<^verbatim>\<open>respond\<close> from \<^verbatim>\<open>startGeneration\<close> on, for a loaded graph: the user message
  is stored and the initial state dispatched only with a generation id.
\<close>

definition startAndDispatch ::
  "respond_env \<Rightarrow> string \<Rightarrow> InvokeOptions \<Rightarrow> string \<Rightarrow> string
     \<Rightarrow> (respond_error + string) \<times> effect list" where
  "startAndDispatch env message options userId compiled =
     (let conversationId = respond_conversationId env message options;
          generation = startGeneration env conversationId
      in if \<not> truthyStr generation then
           (Inl (RespondError ''A generation is already in progress for this conversation''),
            [StartGeneration conversationId,
             LoggerLog ''warn'' ''Generation already in progress for conversation''])
         else
           (let generationId = jsOr generation [];
                (accountTier, defaultNeuronId, defaultWorkerNeuronId, defaultGraphId) =
                   settingsOf (loadUser env userId);
                userMessageId = jsOr (opt_userMessageId options) (freshUserMessageId env);
                started = [StartGeneration conversationId,
                           LoggerLog ''info''
                             (''<cyan>Starting generation</cyan> <dim>'' @ generationId @ ''</dim>''),
                           CallMcpTool ''store_message''
                             [(''conversationId'', conversationId), (''userId'', userId),
                              (''role'', ''user''), (''content'', message),
                              (''messageId'', userMessageId)]];
                initialState = \<lparr>is_message = message, is_conversationId = conversationId,
                   is_generationId = generationId, is_messageId = opt_messageId options,
                   is_userId = userId, is_accountTier = accountTier,
                   is_defaultNeuronId = defaultNeuronId,
                   is_defaultWorkerNeuronId = defaultWorkerNeuronId\<rparr>
            in case storeMessageError env of
                 Some err \<Rightarrow> (Inl (RespondError err), started)
               | None \<Rightarrow>
                   if opt_stream options
                   then (Inr generationId, started @ [StreamThroughGraph compiled initialState])
                   else (Inr generationId, started @ [GraphInvoke compiled initialState])))"

definition respond ::
  "respond_env \<Rightarrow> string \<Rightarrow> InvokeOptions \<Rightarrow> (respond_error + string) \<times> effect list" where
  "respond env message options =
     (if \<not> truthyStr (opt_userId options) then
        (Inl (RespondError ''[Respond] userId is required in options for per-user model loading (Phase 0)''), [])
      else
        (let userId = respond_userId options;
             graphId = respond_graphId env options
         in case loadGraph env graphId userId of
              (Inl e, effs) \<Rightarrow> (Inl e, effs)
            | (Inr compiled, effs) \<Rightarrow>
                (case startAndDispatch env message options userId compiled of
                   (r, effs') \<Rightarrow> (r, effs @ effs'))))"

text \<open>The effects the claim is about: a \<^verbatim>\<open>store_message\<close> call and the dispatch to the graph.\<close>

fun storesOrDispatches :: "effect \<Rightarrow> bool" where
  "storesOrDispatches (CallMcpTool name args) = (name = ''store_message'')"
| "storesOrDispatches (StreamThroughGraph g s) = True"
| "storesOrDispatches (GraphInvoke g s) = True"
| "storesOrDispatches e = False"

definition busyEnv :: respond_env where
  "busyEnv =
     \<lparr>loadUser = (\<lambda>u. SettingsMissing),
      getGraph = (\<lambda>g u. if g = ''red-assistant'' then Inr g
                         else Inl \<lparr>ge_name = ''GraphNotFoundError'', ge_message = ''not found''\<rparr>),
      startGeneration = (\<lambda>c. if c = ''conv_busy'' then None else Some ''gen_1''),
      generateConversationId = (\<lambda>m. ''conv_new''),
      freshUserMessageId = ''msg_u'',
      freshAssistantMessageId = ''msg_a'',
      storeMessageError = None\<rparr>"

definition busyOptions :: InvokeOptions where
  "busyOptions =
     \<lparr>opt_userId = Some ''u1'', opt_graphId = Some ''research-mode'',
      opt_conversationId = Some ''conv_busy'', opt_messageId = Some ''m1'',
      opt_userMessageId = None, opt_stream = True\<rparr>"

section \<open>Streaming token transformer (respond.ts, streamThroughGraphWithMemory)\<close>

text \<open>
  The generator's loop over the language model's stream, for the chunks that pass the
  visibility test (\<^verbatim>\<open>on_llm_stream\<close> events with content, from the respond node or from a step
  that streams to the user). Its local variables are the fields of a record; the items it
  yields, the events it publishes and the thoughts it stores are recorded in order. The
  clock is a parameter: \<open>clock k\<close> is what the \<open>k\<close>-th call of \<^verbatim>\<open>Date.now()\<close> returns.
  \<^verbatim>\<open>thinkingPublisher\<close> is always \<^verbatim>\<open>null\<close> in the source.
\<close>

record stream_config =
  sc_requestId :: "string option"
  sc_generationId :: string
  sc_conversationId :: string
  sc_clock :: "nat \<Rightarrow> int"
  sc_storeThoughtFails :: bool

datatype stream_event =
    PublishStatus string
  | YieldStatus string
  | PublishThinkingChunk string
  | YieldThinkingChunk string
  | YieldChunk string
  | StoreThought string

record stream_state =
  pendingBuffer :: string
  inThinkingTag :: bool
  thinkingBuffer :: string
  fullContent :: string
  streamedTokens :: bool
  streamedThinking :: bool
  chunkBuffer :: string
  lastYieldTime :: int
  clockReads :: nat
  events :: "stream_event list"

definition BATCH_INTERVAL_MS :: int where
  "BATCH_INTERVAL_MS = 50"

definition BATCH_SIZE :: nat where
  "BATCH_SIZE = 10"

definition initialStream :: "stream_config \<Rightarrow> stream_state" where
  "initialStream cfg =
     \<lparr>pendingBuffer = [], inThinkingTag = False, thinkingBuffer = [], fullContent = [],
      streamedTokens = False, streamedThinking = False, chunkBuffer = [],
      lastYieldTime = sc_clock cfg 0, clockReads = 1, events = []\<rparr>"

definition emit :: "stream_event list \<Rightarrow> stream_state \<Rightarrow> stream_state" where
  "emit es st = st\<lparr>events := events st @ es\<rparr>"

text \<open>One character of content that is not inside a thinking block.\<close>

definition contentChar :: "stream_config \<Rightarrow> char \<Rightarrow> stream_state \<Rightarrow> stream_state" where
  "contentChar cfg c st =
     (if \<not> streamedTokens st \<and> (c = CHR 0x0A \<or> c = CHR 0x0D \<or> c = CHR '' '') then st
      else
        (let buffer = chunkBuffer st @ [c];
             now = sc_clock cfg (clockReads st);
             st1 = st\<lparr>fullContent := fullContent st @ [c], streamedTokens := True,
                     clockReads := Suc (clockReads st)\<rparr>
         in if length buffer \<ge> BATCH_SIZE \<or> now - lastYieldTime st \<ge> BATCH_INTERVAL_MS
            then emit [YieldChunk buffer] (st1\<lparr>chunkBuffer := [], lastYieldTime := now\<rparr>)
            else st1\<lparr>chunkBuffer := buffer\<rparr>))"

text \<open>One character inside a thinking block.\<close>

definition thinkingChar :: "stream_config \<Rightarrow> char \<Rightarrow> stream_state \<Rightarrow> stream_state" where
  "thinkingChar cfg c st =
     (let st1 = st\<lparr>thinkingBuffer := thinkingBuffer st @ [c]\<rparr> in
      if truthyStr (sc_requestId cfg)
      then emit [PublishThinkingChunk [c], YieldThinkingChunk [c]] (st1\<lparr>streamedThinking := True\<rparr>)
      else st1)"

definition openThinking :: "stream_config \<Rightarrow> stream_state \<Rightarrow> stream_state" where
  "openThinking cfg st =
     (let st1 = st\<lparr>inThinkingTag := True, pendingBuffer := drop 7 (pendingBuffer st)\<rparr> in
      if truthyStr (sc_requestId cfg)
      then emit [PublishStatus ''thinking'', YieldStatus ''thinking''] st1
      else st1)"

text \<open>
  The closing tag: the space is yielded at once and \<^verbatim>\<open>streamedTokens\<close> is set; the trimmed
  thinking text is stored when it is not empty and the ids are present (a failure of the
  store is caught and logged).
\<close>

definition closeThinking :: "stream_config \<Rightarrow> stream_state \<Rightarrow> stream_state" where
  "closeThinking cfg st =
     (let st1 = emit [YieldChunk '' '']
                  (st\<lparr>inThinkingTag := False, pendingBuffer := drop 8 (pendingBuffer st),
                      streamedTokens := True\<rparr>);
          st2 = (if trim (thinkingBuffer st) \<noteq> [] \<and> sc_generationId cfg \<noteq> []
                    \<and> sc_conversationId cfg \<noteq> [] \<and> \<not> sc_storeThoughtFails cfg
                 then emit [StoreThought (trim (thinkingBuffer st))] st1 else st1)
      in st2\<lparr>thinkingBuffer := []\<rparr>)"

text \<open>\<^verbatim>\<open>while (pendingBuffer.length > 8)\<close>\<close>

function processPending :: "stream_config \<Rightarrow> stream_state \<Rightarrow> stream_state" where
  "processPending cfg st =
     (if \<not> length (pendingBuffer st) > 8 then st
      else if \<not> inThinkingTag st \<and> startsWith (pendingBuffer st) ''<think>''
        then processPending cfg (openThinking cfg st)
      else if inThinkingTag st \<and> startsWith (pendingBuffer st) ''</think>''
        then processPending cfg (closeThinking cfg st)
      else
        (let c = hd (pendingBuffer st);
             st1 = st\<lparr>pendingBuffer := tl (pendingBuffer st)\<rparr>
         in processPending cfg
              (if inThinkingTag st then thinkingChar cfg c st1 else contentChar cfg c st1)))"
  by pat_completeness auto
termination
proof (relation "measure (\<lambda>(cfg, st). length (pendingBuffer st))")
  show "wf (measure (\<lambda>(cfg, st). length (pendingBuffer st)))" by simp
next
  fix cfg :: stream_config and st :: stream_state
  assume "\<not> \<not> 8 < length (pendingBuffer st)"
  then show "((cfg, openThinking cfg st), cfg, st) \<in> measure (\<lambda>(cfg, st). length (pendingBuffer st))"
    by (auto simp: openThinking_def emit_def Let_def)
next
  fix cfg :: stream_config and st :: stream_state
  assume "\<not> \<not> 8 < length (pendingBuffer st)"
  then show "((cfg, closeThinking cfg st), cfg, st) \<in> measure (\<lambda>(cfg, st). length (pendingBuffer st))"
    by (auto simp: closeThinking_def emit_def Let_def)
next
  fix cfg :: stream_config and st :: stream_state and x xa
  assume "\<not> \<not> 8 < length (pendingBuffer st)"
    and "x = hd (pendingBuffer st)" and "xa = st\<lparr>pendingBuffer := tl (pendingBuffer st)\<rparr>"
  then show "((cfg, if inThinkingTag st then thinkingChar cfg x xa else contentChar cfg x xa), cfg, st)
      \<in> measure (\<lambda>(cfg, st). length (pendingBuffer st))"
    by (auto simp: thinkingChar_def contentChar_def emit_def Let_def)
qed

declare processPending.simps [simp del]

text \<open>
  The flush at the end of the stream: the rest of the buffer goes through the same
  character handling, without the tests for tags.
\<close>

fun flushChars :: "stream_config \<Rightarrow> string \<Rightarrow> stream_state \<Rightarrow> stream_state" where
  "flushChars cfg [] st = st"
| "flushChars cfg (c # cs) st =
     flushChars cfg cs (if inThinkingTag st then thinkingChar cfg c st else contentChar cfg c st)"

definition flushPending :: "stream_config \<Rightarrow> stream_state \<Rightarrow> stream_state" where
  "flushPending cfg st =
     (let st1 = flushChars cfg (pendingBuffer st) (st\<lparr>pendingBuffer := []\<rparr>) in
      if chunkBuffer st1 \<noteq> [] then emit [YieldChunk (chunkBuffer st1)] (st1\<lparr>chunkBuffer := []\<rparr>)
      else st1)"

definition onChunk :: "stream_config \<Rightarrow> stream_state \<Rightarrow> string \<Rightarrow> stream_state" where
  "onChunk cfg st content =
     (if content = [] then st
      else processPending cfg (st\<lparr>pendingBuffer := pendingBuffer st @ content\<rparr>))"

text \<open>The whole stream: every chunk, then the flush.\<close>

definition transformStream :: "stream_config \<Rightarrow> string list \<Rightarrow> stream_state" where
  "transformStream cfg chunks = flushPending cfg (foldl (onChunk cfg) (initialStream cfg) chunks)"

text \<open>
  What is persisted after a stream in which tokens were streamed: the \<^verbatim>\<open>content\<close> of the
  \<^verbatim>\<open>store_message\<close> call, made only for a non-empty \<^verbatim>\<open>fullContent\<close>, and the stored thoughts.
\<close>

definition persistedContent :: "stream_state \<Rightarrow> string option" where
  "persistedContent st = (if fullContent st \<noteq> [] then Some (fullContent st) else None)"

definition storedThoughts :: "stream_state \<Rightarrow> string list" where
  "storedThoughts st = concat (map (\<lambda>e. case e of StoreThought t \<Rightarrow> [t] | _ \<Rightarrow> []) (events st))"

definition yieldedChunks :: "stream_state \<Rightarrow> string list" where
  "yieldedChunks st = concat (map (\<lambda>e. case e of YieldChunk t \<Rightarrow> [t] | _ \<Rightarrow> []) (events st))"

definition exampleStream :: stream_config where
  "exampleStream =
     \<lparr>sc_requestId = Some ''m1'', sc_generationId = ''g1'', sc_conversationId = ''c1'',
      sc_clock = (\<lambda>k. 0), sc_storeThoughtFails = False\<rparr>"

section \<open>Verified properties\<close>

subsection \<open>Access control\<close>

lemma neuron_own: "neuron_userId c = Some u \<Longrightarrow> neuron_validateAccess users c u = Inr ()"
  by (simp add: neuron_validateAccess_def)

lemma neuron_system:
  assumes "neuron_userId c = Some ''system''" "u \<noteq> ''system''" "users u \<noteq> UserFound None"
  shows "(neuron_validateAccess users c u = Inr ()) = (specUserTier (users u) \<le> neuron_tier c)"
proof (cases "users u")
  case (UserFound lvl)
  with assms show ?thesis
    by (cases lvl) (auto simp: neuron_validateAccess_def Let_def)
qed (use assms in \<open>auto simp: neuron_validateAccess_def Let_def\<close>)

lemma neuron_no_level:
  assumes "neuron_userId c = Some ''system''" "u \<noteq> ''system''" "users u = UserFound None"
  shows "neuron_validateAccess users c u = Inr ()"
  using assms by (simp add: neuron_validateAccess_def)

lemma neuron_other:
  assumes "neuron_userId c \<noteq> Some u" "neuron_userId c \<noteq> Some ''system''"
  shows "neuron_validateAccess users c u = Inl (PrivateResource (neuron_id c))"
  using assms by (simp add: neuron_validateAccess_def)

lemma graph_own: "graph_userId g = u \<Longrightarrow> graph_validateAccess users g u = Inr ()"
  by (simp add: graph_validateAccess_def)

lemma graph_system:
  assumes "graph_userId g = ''system''" "u \<noteq> ''system''"
  shows "(graph_validateAccess users g u = Inr ()) = (specUserTier (users u) \<le> graph_tier g)"
proof (cases "users u")
  case (UserFound lvl)
  with assms show ?thesis
    by (cases lvl) (auto simp: graph_validateAccess_def Let_def)
qed (use assms in \<open>auto simp: graph_validateAccess_def Let_def\<close>)

lemma graph_other:
  assumes "graph_userId g \<noteq> u" "graph_userId g \<noteq> ''system''"
  shows "graph_validateAccess users g u = Inl (PrivateResource (graph_graphId g))"
  using assms by (simp add: graph_validateAccess_def)

text \<open>
  Claim C9 fails on the code. The claim: in both registries a resource owned by the
  requesting user is accessible to that user, a system-owned resource is accessible
  exactly when the user's tier is at most the resource's tier, the user's tier being 4
  when it is unknown, and a resource owned by anybody else is refused. The graph registry
  keeps the rule for every user, and the neuron registry keeps it for every user but one
  kind (the lemmas above): for a user whose stored document has no \<^verbatim>\<open>accountLevel\<close>,
  \<^verbatim>\<open>NeuronRegistry.getUserTier\<close> returns \<^verbatim>\<open>undefined\<close> instead of 4, the test
  \<^verbatim>\<open>undefined > config.tier\<close> is false, and every system neuron is granted. Such a user has
  tier 4 and yet is given a system neuron of tier 0; the graph registry refuses the same
  user a system graph of tier 0.
\<close>

theorem neuron_access_without_account_level:
  "exampleUsers ''u4'' = UserFound None
   \<and> specUserTier (exampleUsers ''u4'') = 4
   \<and> neuron_validateAccess exampleUsers
        \<lparr>neuron_id = ''admin-neuron'', neuron_tier = 0, neuron_userId = Some ''system''\<rparr> ''u4''
        = Inr ()
   \<and> graph_validateAccess exampleUsers
        \<lparr>graph_graphId = ''admin-graph'', graph_tier = 0, graph_userId = ''system''\<rparr> ''u4''
        = Inl (RequiresTier ''admin-graph'' 0 (Some 4))"
  by (simp add: exampleUsers_def neuron_validateAccess_def graph_validateAccess_def)

subsection \<open>Condition evaluator\<close>

lemma str_includes_sublist: "str_includes s n = sublist n s"
  by (induction s) (auto simp: sublist_Cons_right)

lemma splitOn_nonempty: "splitOn d s \<noteq> []"
  by (induction s) (auto split: list.splits)

lemma splitOn_cover: "c \<in> set s \<Longrightarrow> c = d \<or> (\<exists>seg \<in> set (splitOn d s). c \<in> set seg)"
proof (induction s)
  case Nil
  then show ?case by simp
next
  case (Cons a s)
  obtain seg segs where sp: "splitOn d s = seg # segs"
    using splitOn_nonempty by (cases "splitOn d s") auto
  show ?case
  proof (cases "a = d")
    case True
    with Cons show ?thesis by auto
  next
    case False
    with Cons sp show ?thesis by auto
  qed
qed

lemma splitOn_prefix: "d \<notin> set pre \<Longrightarrow> splitOn d (pre @ d # r) = pre # splitOn d r"
  by (induction pre) auto

lemma isPath_pathChars: "isPath s \<Longrightarrow> list_all isPathChar s"
  unfolding list_all_iff isPath_def isPathChar_def
  using splitOn_cover [of _ s "CHR ''.''"] by blast

lemma isPath_state_prefix: "isPath (''state.'' @ r) \<Longrightarrow> isPath r"
  using splitOn_prefix [of "CHR ''.''" "''state''" r] by (simp add: isPath_def)

lemma matchStatePath_path: "isPath p \<Longrightarrow> matchStatePath (''state.'' @ p) = Some (p, [])"
proof -
  assume p: "isPath p"
  then have "list_all isPathChar p" by (rule isPath_pathChars)
  then have tw: "takeWhile isPathChar p = p" and dw: "dropWhile isPathChar p = []"
    by (simp_all add: list_all_iff)
  show ?thesis by (simp add: matchStatePath_def Let_def tw dw p)
qed

lemma stripPrefix_Some: "stripPrefix p s = Some r \<longleftrightarrow> s = p @ r"
  by (induction p s rule: stripPrefix.induct) auto

lemma startsWith_state: "startsWith t ''state.'' \<Longrightarrow> \<exists>r. t = ''state.'' @ r"
  by (auto simp: startsWith_def prefix_def)

lemma propMatch_of_path:
  assumes "isPath t"
  shows "isMatch (propMatch (if \<not> startsWith t ''state.'' \<and> isPath t then ''state.'' @ t else t))"
proof (cases "startsWith t ''state.''")
  case True
  then obtain r where r: "t = ''state.'' @ r" using startsWith_state by blast
  with assms have "isPath r" using isPath_state_prefix by blast
  then show ?thesis using True r matchStatePath_path [of r]
    by (simp add: propMatch_def matchStatePathEnd_def isMatch_def)
next
  case False
  then show ?thesis using assms matchStatePath_path [of t]
    by (simp add: propMatch_def matchStatePathEnd_def isMatch_def)
qed

lemma evaluate_total:
  assumes m: "isMatch (propMatch t') \<or> isMatch (comparisonMatch t') \<or> isMatch (andMatch t')
     \<or> isMatch (orMatch t') \<or> isMatch (complexMatch t')"
    and t': "t' = (if \<not> startsWith (trim e) ''state.'' \<and> isPath (trim e) then ''state.'' @ trim e else trim e)"
  shows "\<exists>v. evaluateExpression e s = Inr v"
proof -
  have ev: "evaluateExpression e s =
     (case comparisonMatch t' of
           Some (path, operator, valueStr) \<Rightarrow>
             Inr (Bool (compareOp operator (getNestedProperty s path) (parseValue valueStr)))
         | None \<Rightarrow>
        (case andMatch t' of
           Some (path1, path2) \<Rightarrow>
             Inr (Bool (truthy (getNestedProperty s path1) \<and> truthy (getNestedProperty s path2)))
         | None \<Rightarrow>
        (case orMatch t' of
           Some (path1, path2) \<Rightarrow>
             Inr (Bool (truthy (getNestedProperty s path1) \<or> truthy (getNestedProperty s path2)))
         | None \<Rightarrow>
        (case complexMatch t' of
           Some (path1, path2, operator, path3) \<Rightarrow>
             (let value1 = getNestedProperty s path1;
                  value2 = getNestedProperty s path2;
                  value3 = getNestedProperty s path3
              in if \<not> truthy value1 then Inr (Bool False)
                 else Inr (Bool (compareOp operator value2 value3)))
         | None \<Rightarrow>
        (case propMatch t' of
           Some path \<Rightarrow> Inr (getNestedProperty s path)
         | None \<Rightarrow> Inl (''Unable to parse expression: '' @ e))))))"
    unfolding evaluateExpression_def Let_def t' ..
  show ?thesis
  proof (cases "comparisonMatch t'")
    case (Some a)
    then show ?thesis unfolding ev by (cases a) simp
  next
    case c: None
    show ?thesis
    proof (cases "andMatch t'")
      case (Some a)
      then show ?thesis unfolding ev c by (cases a) simp
    next
      case a: None
      show ?thesis
      proof (cases "orMatch t'")
        case (Some b)
        then show ?thesis unfolding ev c a by (cases b) simp
      next
        case b: None
        show ?thesis
        proof (cases "complexMatch t'")
          case (Some x)
          then show ?thesis unfolding ev c a b by (cases x) (simp add: Let_def)
        next
          case x: None
          from m c a b x obtain p where "propMatch t' = Some p"
            by (cases "propMatch t'") (simp_all add: isMatch_def)
          then show ?thesis unfolding ev c a b x by simp
        qed
      qed
    qed
  qed
qed

lemma safe_evaluates: "isSafeExpression e \<Longrightarrow> \<exists>v. evaluateExpression e s = Inr v"
proof -
  assume safe: "isSafeExpression e"
  let ?t = "trim e"
  let ?t' = "if \<not> startsWith ?t ''state.'' \<and> isPath ?t then ''state.'' @ ?t else ?t"
  show ?thesis
  proof (cases "isPath ?t")
    case True
    then have "isMatch (propMatch ?t')" by (rule propMatch_of_path)
    then show ?thesis using evaluate_total [of ?t' e s] by simp
  next
    case False
    with safe have "isMatch (propMatch ?t) \<or> isMatch (comparisonMatch ?t) \<or> isMatch (andMatch ?t)
     \<or> isMatch (orMatch ?t) \<or> isMatch (complexMatch ?t)"
      by (auto simp: isSafeExpression_def Let_def)
    then show ?thesis using evaluate_total [of ?t e s] False by simp
  qed
qed

lemma dropWhile_keeps:
  assumes "n \<noteq> []" "\<not> P (hd n)"
  shows "\<exists>ps'. dropWhile P (ps @ n @ ss) = ps' @ n @ ss"
proof (cases "\<forall>x\<in>set ps. P x")
  case True
  from assms have "dropWhile P (n @ ss) = n @ ss" by (cases n) auto
  with True have "dropWhile P (ps @ n @ ss) = [] @ n @ ss" by (simp add: dropWhile_append)
  then show ?thesis by blast
next
  case False
  then have "dropWhile P (ps @ n @ ss) = dropWhile P ps @ n @ ss"
    by (auto simp: dropWhile_append)
  then show ?thesis by blast
qed

lemma sublist_trim:
  assumes "sublist n s" "n \<noteq> []" "\<not> isWhite (hd n)" "\<not> isWhite (last n)"
  shows "sublist n (trim s)"
proof -
  from assms(1) obtain ps ss where s: "s = ps @ n @ ss" by (auto simp: sublist_def)
  from dropWhile_keeps [of n isWhite ps ss] assms(2,3) obtain ps' where
    d1: "dropWhile isWhite s = ps' @ n @ ss" unfolding s by blast
  have rn: "rev n \<noteq> []" "\<not> isWhite (hd (rev n))"
    using assms(2,4) by (simp_all add: hd_rev)
  from dropWhile_keeps [of "rev n" isWhite "rev ss" "rev ps'"] rn obtain q where
    "dropWhile isWhite (rev ss @ rev n @ rev ps') = q @ rev n @ rev ps'" by blast
  then have "trim s = ps' @ n @ rev q" by (simp add: trim_def d1)
  then show ?thesis by (auto simp: sublist_def)
qed

lemma keyword_shape:
  "kw \<in> set dangerousKeywords \<Longrightarrow> kw \<noteq> [] \<and> \<not> isWhite (hd kw) \<and> \<not> isWhite (last kw)"
  by (auto simp: dangerousKeywords_def isWhite_def)

lemma dangerous_not_safe:
  assumes "kw \<in> set dangerousKeywords" "str_includes expression kw"
  shows "\<not> isSafeExpression expression"
proof -
  from assms keyword_shape have "str_includes (trim expression) kw"
    by (simp add: str_includes_sublist sublist_trim)
  with assms(1) have "list_ex (\<lambda>keyword. str_includes (trim expression) keyword) dangerousKeywords"
    by (auto simp: list_ex_iff)
  then show ?thesis by (simp add: isSafeExpression_def Let_def)
qed

lemma unsafe_result:
  "\<not> isSafeExpression expression \<Longrightarrow>
   createConditionFunction expression targets fallback state = jsOr fallback ''__end__''"
  by (simp add: createConditionFunction_def)

text \<open>
  Claim C1, as amended. An expression that contains one of the forbidden identifiers is
  never evaluated: the condition function is constant, the same for every state and every
  \<open>targets\<close> record, and with no fallback declared it returns \<^verbatim>\<open>__end__\<close>.
\<close>

theorem forbidden_identifier_constant:
  assumes "kw \<in> set dangerousKeywords" and "str_includes expression kw"
  shows "createConditionFunction expression targets fallback state
           = createConditionFunction expression targets' fallback state'
       \<and> (fallback = None \<longrightarrow>
            createConditionFunction expression targets fallback state = ''__end__'')"
  using dangerous_not_safe [OF assms] by (simp add: unsafe_result jsOr_def)

lemma demo_unsafe: "\<not> isSafeExpression ''state.constructor''"
  by (rule dangerous_not_safe [of "''constructor''"]) (simp_all add: dangerousKeywords_def)

theorem forbidden_identifier_constant_witness:
  "createConditionFunction ''state.constructor'' (Some [(''ok'', ''respond'')]) None
      (Obj [(''constructor'', Str ''ok'')])
     = createConditionFunction ''state.constructor'' None None Undefined
   \<and> createConditionFunction ''state.constructor'' (Some [(''ok'', ''respond'')]) None
      (Obj [(''constructor'', Str ''ok'')]) = ''__end__''"
proof -
  have p1: "''constructor'' \<in> set dangerousKeywords" by (simp add: dangerousKeywords_def)
  have p2: "str_includes ''state.constructor'' ''constructor''" by simp
  from forbidden_identifier_constant [OF p1 p2, of "Some [(''ok'', ''respond'')]" None
      "Obj [(''constructor'', Str ''ok'')]" None Undefined]
  show ?thesis by blast
qed

text \<open>
  The claim as stated fails: with no fallback declared the result for an expression that
  names \<^verbatim>\<open>constructor\<close> is \<^verbatim>\<open>__end__\<close>, not \<^verbatim>\<open>__fallback__\<close>.
\<close>

theorem forbidden_identifier_counterexample:
  "str_includes ''state.constructor'' ''constructor''
   \<and> createConditionFunction ''state.constructor'' (Some [(''ok'', ''respond'')]) None
        (Obj [(''constructor'', Str ''ok'')]) = ''__end__''
   \<and> ''__end__'' \<noteq> ''__fallback__''"
  by (simp add: unsafe_result [OF demo_unsafe] jsOr_def)

lemma safe_nonempty:
  assumes "isSafeExpression e"
  shows "trim e \<noteq> [] \<and> e \<noteq> []"
proof -
  have A: "trim e \<noteq> []"
  proof
    assume t: "trim e = []"
    from assms show False
      unfolding isSafeExpression_def Let_def t
      by (simp add: isPath_def propMatch_def matchStatePathEnd_def
        matchStatePath_def comparisonMatch_def andMatch_def orMatch_def logicalMatch_def
        complexMatch_def isMatch_def)
  qed
  then have "e \<noteq> []" by (auto simp: trim_def)
  with A show ?thesis by simp
qed

lemma targetString_member:
  "distinct (map fst tg) \<Longrightarrow> (k, v) \<in> set tg \<Longrightarrow> targetString tg k = v"
  by (simp add: targetString_def)

lemma find_keys_pairs:
  assumes "distinct (map fst tg)" "set xs \<subseteq> set tg"
  shows "List.find (\<lambda>k. targetString tg k = r) (map fst xs)
         = map_option fst (List.find (\<lambda>kv. snd kv = r) xs)"
  using assms(2)
proof (induction xs)
  case Nil
  then show ?case by simp
next
  case (Cons x xs)
  obtain k v where x: "x = (k, v)" by (cases x)
  with Cons.prems have "targetString tg k = v"
    using targetString_member [OF assms(1)] by simp
  with Cons x show ?case by simp
qed

lemma find_keys_none:
  assumes "r \<notin> snd ` set tg"
  shows "List.find (\<lambda>k. targetString tg k = r) (map fst tg) = None"
proof -
  have "targetString tg k \<noteq> r" if "k \<in> fst ` set tg" for k
  proof -
    from that obtain v where "map_of tg k = Some v"
      by (cases "map_of tg k") (auto simp: map_of_eq_None_iff)
    moreover from this have "(k, v) \<in> set tg" by (rule map_of_SomeD)
    ultimately show ?thesis using assms by (force simp: targetString_def)
  qed
  then show ?thesis by (auto simp: find_None_iff)
qed

lemma safe_condition_result:
  assumes "isSafeExpression expression" "evaluateExpression expression state = Inr result"
  shows "createConditionFunction expression (Some tg) fallback state =
     (if jsString result \<in> fst ` set tg then jsString result
      else (case List.find (\<lambda>k. targetString tg k = jsString result) (map fst tg) of
              Some keyForNode \<Rightarrow> if keyForNode \<noteq> [] then keyForNode else fallbackResult fallback
            | None \<Rightarrow> fallbackResult fallback))"
  using assms safe_nonempty [OF assms(1)]
  by (simp add: createConditionFunction_def Let_def)

lemma fallbackResult_alt:
  "fallbackResult fallback = (if truthyStr fallback then ''__fallback__'' else ''__end__'')"
  by (simp add: fallbackResult_def truthyStr_def split: option.splits)

lemma targetMap_fallback:
  "map_of (targetMap edge) (fallbackResult (edge_fallback edge)) = Some (jsOr (edge_fallback edge) END)"
  by (cases "edge_fallback edge")
     (simp_all add: targetMap_def Let_def fallbackResult_def jsOr_def truthyList_def update_conv')

text \<open>
  Claim C5, as amended. A safe expression always evaluates. With a \<open>targets\<close> record
  the condition function returns the stringified result when it is a key; otherwise the
  first key whose target equals it, when that key is not the empty string; and when it is
  neither a key nor a target, \<^verbatim>\<open>__fallback__\<close> if a fallback is declared and \<^verbatim>\<open>__end__\<close> if
  not. The compiler's target map sends that result to the fallback node, respectively to
  the end of the graph.
\<close>

theorem conditional_edge_result:
  assumes "isSafeExpression expression"
  shows "\<exists>result. evaluateExpression expression state = Inr result
    \<and> (jsString result \<in> fst ` set targets \<longrightarrow>
         createConditionFunction expression (Some targets) fallback state = jsString result)
    \<and> (jsString result \<notin> fst ` set targets \<and> distinct (map fst targets)
         \<and> List.find (\<lambda>kv. snd kv = jsString result) targets = Some (k, v) \<and> k \<noteq> [] \<longrightarrow>
         createConditionFunction expression (Some targets) fallback state = k)
    \<and> (jsString result \<notin> fst ` set targets \<and> jsString result \<notin> snd ` set targets \<longrightarrow>
         createConditionFunction expression (Some targets) fallback state
           = (if truthyStr fallback then ''__fallback__'' else ''__end__''))
    \<and> map_of (targetMap edge) (if truthyStr (edge_fallback edge) then ''__fallback__'' else ''__end__'')
         = Some (jsOr (edge_fallback edge) END)"
proof -
  from safe_evaluates [OF assms] obtain result where
    ev: "evaluateExpression expression state = Inr result" by blast
  note r = safe_condition_result [OF assms ev, of targets fallback]
  have 1: "jsString result \<in> fst ` set targets \<longrightarrow>
         createConditionFunction expression (Some targets) fallback state = jsString result"
    by (simp add: r)
  have 2: "jsString result \<notin> fst ` set targets \<and> distinct (map fst targets)
         \<and> List.find (\<lambda>kv. snd kv = jsString result) targets = Some (k, v) \<and> k \<noteq> [] \<longrightarrow>
         createConditionFunction expression (Some targets) fallback state = k"
    using find_keys_pairs [of targets targets "jsString result"] by (simp add: r)
  have 3: "jsString result \<notin> fst ` set targets \<and> jsString result \<notin> snd ` set targets \<longrightarrow>
         createConditionFunction expression (Some targets) fallback state
           = (if truthyStr fallback then ''__fallback__'' else ''__end__'')"
    using find_keys_none [of "jsString result" targets] by (simp add: r fallbackResult_alt)
  have 4: "map_of (targetMap edge) (if truthyStr (edge_fallback edge) then ''__fallback__'' else ''__end__'')
         = Some (jsOr (edge_fallback edge) END)"
    using targetMap_fallback [of edge] by (simp only: fallbackResult_alt)
  from ev 1 2 3 4 show ?thesis by blast
qed

lemma route_safe: "isSafeExpression ''state.data.routeDecision''"
  by code_simp

lemma route_eval: "evaluateExpression ''state.data.routeDecision'' (routeState r) = Inr (Str r)"
  by (simp add: evaluateExpression_def routeState_def trim_def isWhite_def startsWith_def
      comparisonMatch_def andMatch_def orMatch_def complexMatch_def logicalMatch_def propMatch_def
      matchStatePathEnd_def matchStatePath_def isPathChar_def isWordChar_def isPath_def
      getNestedProperty_def isObjectType_def lookupKey_def Let_def comparisonOps_def
      relationalOps_def)

theorem conditional_edge_result_witness:
  "createConditionFunction ''state.data.routeDecision'' (Some routeTargets) (Some ''planner'')
       (routeState ''plan'') = ''plan''
   \<and> createConditionFunction ''state.data.routeDecision'' (Some routeTargets) (Some ''planner'')
       (routeState ''respond'') = ''direct''
   \<and> createConditionFunction ''state.data.routeDecision'' (Some routeTargets) (Some ''planner'')
       (routeState ''maybe'') = ''__fallback__''
   \<and> map_of (targetMap routeEdge) ''__fallback__'' = Some ''planner''"
proof -
  have f: "List.find (\<lambda>kv. snd kv = ''respond'') routeTargets = Some (''direct'', ''respond'')"
    by (simp add: routeTargets_def)
  from conditional_edge_result [OF route_safe, where state = "routeState ''plan''"
      and targets = routeTargets and k = "''direct''" and v = "''respond''"
      and fallback = "Some ''planner''" and edge = routeEdge]
  have 1: "createConditionFunction ''state.data.routeDecision'' (Some routeTargets) (Some ''planner'')
       (routeState ''plan'') = ''plan''"
    by (auto simp: route_eval routeTargets_def)
  from conditional_edge_result [OF route_safe, where state = "routeState ''respond''"
      and targets = routeTargets and k = "''direct''" and v = "''respond''"
      and fallback = "Some ''planner''" and edge = routeEdge] f
  have 2: "createConditionFunction ''state.data.routeDecision'' (Some routeTargets) (Some ''planner'')
       (routeState ''respond'') = ''direct''"
    by (auto simp: route_eval routeTargets_def)
  from conditional_edge_result [OF route_safe, where state = "routeState ''maybe''"
      and targets = routeTargets and k = "''direct''" and v = "''respond''"
      and fallback = "Some ''planner''" and edge = routeEdge]
  have 3: "createConditionFunction ''state.data.routeDecision'' (Some routeTargets) (Some ''planner'')
       (routeState ''maybe'') = ''__fallback__''"
    and 4: "map_of (targetMap routeEdge) ''__fallback__'' = Some ''planner''"
    by (auto simp: route_eval routeTargets_def truthyStr_def routeEdge_def jsOr_def)
  from 1 2 3 4 show ?thesis by simp
qed

text \<open>
  The claim as stated fails: an unmatched result on an edge without fallback gives
  \<^verbatim>\<open>__end__\<close>, not \<^verbatim>\<open>__fallback__\<close>.
\<close>

theorem conditional_edge_counterexample:
  "isSafeExpression ''state.data.routeDecision''
   \<and> evaluateExpression ''state.data.routeDecision'' (routeState ''maybe'') = Inr (Str ''maybe'')
   \<and> createConditionFunction ''state.data.routeDecision'' (Some routeTargets) None
        (routeState ''maybe'') = ''__end__''
   \<and> ''__end__'' \<noteq> ''__fallback__''"
  by code_simp

subsection \<open>Graph compiler\<close>

text \<open>
  Claim C7 fails on the code: a node type that \<^verbatim>\<open>NODE_REGISTRY\<close> only inherits from
  \<^verbatim>\<open>Object.prototype\<close> is not among the recognised types, yet validation reports no
  error and compilation goes on to the graph builder.
\<close>

theorem inherited_type_passes_validation:
  "''toString'' \<notin> set nodeRegistryKeys
   \<and> validateGraphConfig inheritedTypeConfig = Inr []
   \<and> compileGraphFromConfig inheritedTypeConfig =
       Inr \<lparr>compiled_graphId = ''g1'', compiled_nodes = [''a''],
            compiled_edges = [SimpleEdge ''__start__'' ''a'', SimpleEdge ''a'' ''__end__'']\<rparr>"
  by code_simp

subsection \<open>Step conditions\<close>

lemma wrapped_iff:
  "(startsWith t ''{{'' \<and> endsWith t ''}}'') = (\<exists>body. t = ''{{'' @ body @ ''}}'')"
proof
  assume a: "startsWith t ''{{'' \<and> endsWith t ''}}''"
  then obtain r where r: "t = ''{{'' @ r" by (auto simp: startsWith_def prefix_def)
  from a have "suffix ''}}'' (''{{'' @ r)" by (simp only: endsWith_def r)
  then have "suffix ''}}'' r" by (simp add: suffix_Cons)
  then obtain body where "r = body @ ''}}''" by (auto simp: suffix_def)
  with r show "\<exists>body. t = ''{{'' @ body @ ''}}''" by blast
next
  assume "\<exists>body. t = ''{{'' @ body @ ''}}''"
  then obtain body where b: "t = ''{{'' @ body @ ''}}''" ..
  have "prefix ''{{'' t" unfolding b by simp
  moreover have "suffix ''}}'' t" unfolding b by (simp only: append_assoc [symmetric] suffixI)
  ultimately show "startsWith t ''{{'' \<and> endsWith t ''}}''"
    by (simp only: startsWith_def endsWith_def)
qed

lemma slice2_wrapped: "slice2 (''{{'' @ body @ ''}}'') = body"
  by (simp add: slice2_def)

lemma step_unwrapped:
  assumes "\<not> (\<exists>body. trim c = ''{{'' @ body @ ''}}'')"
  shows "\<not> evaluateStepCondition ex c s"
proof -
  from assms have nw: "\<not> (startsWith (trim c) ''{{'' \<and> endsWith (trim c) ''}}'')"
    using wrapped_iff [of "trim c"] by blast
  show ?thesis
    unfolding evaluateStepCondition_def Let_def by (subst if_not_P [OF nw]) simp
qed

lemma step_wrapped:
  assumes "trim c = ''{{'' @ body @ ''}}''"
  shows "evaluateStepCondition ex c s =
     (case hostFunction ex (trim body) s of Inl err \<Rightarrow> False | Inr v \<Rightarrow> truthy v)"
proof -
  have sw: "startsWith (trim c) ''{{'' \<and> endsWith (trim c) ''}}''"
    using wrapped_iff [of "trim c"] assms by blast
  show ?thesis
    unfolding evaluateStepCondition_def Let_def
    by (subst if_P [OF sw]) (simp only: assms slice2_wrapped)
qed

lemma step_skipped:
  "c \<noteq> [] \<Longrightarrow> \<not> evaluateStepCondition ex c s \<Longrightarrow>
   executeStep ex (step\<lparr>step_condition := Some c\<rparr>) s = Inr []"
  by (simp add: executeStep_def truthyStr_def jsOr_def)

lemma step_runs:
  "evaluateStepCondition ex c s \<Longrightarrow>
   executeStep ex (step\<lparr>step_condition := Some c\<rparr>) s
     = executeStep ex (step\<lparr>step_condition := None\<rparr>) s"
  by (simp add: executeStep_def truthyStr_def jsOr_def)

text \<open>
  Claim C2, as amended. The step guard does not use the restricted grammar. A condition
  that, trimmed, is not of the form \<^verbatim>\<open>{{...}}\<close> is never evaluated and counts as false.
  The text inside \<^verbatim>\<open>{{...}}\<close>, trimmed, is compiled and run by the host's function
  constructor; its value is coerced to a boolean, and a thrown error (a malformed
  condition) counts as false. A step whose non-empty condition is false is skipped with
  an empty update; otherwise the step runs as it would without the condition.
\<close>

theorem step_condition_guard:
  "(\<not> (\<exists>body. trim c = ''{{'' @ body @ ''}}'') \<longrightarrow> \<not> evaluateStepCondition ex c s)
   \<and> (trim c = ''{{'' @ body @ ''}}'' \<longrightarrow>
        evaluateStepCondition ex c s =
          (case hostFunction ex (trim body) s of Inl err \<Rightarrow> False | Inr v \<Rightarrow> truthy v))
   \<and> (c \<noteq> [] \<and> \<not> evaluateStepCondition ex c s \<longrightarrow>
        executeStep ex (step\<lparr>step_condition := Some c\<rparr>) s = Inr [])
   \<and> (evaluateStepCondition ex c s \<longrightarrow>
        executeStep ex (step\<lparr>step_condition := Some c\<rparr>) s
          = executeStep ex (step\<lparr>step_condition := None\<rparr>) s)"
  by (intro conjI impI; (elim conjE)?;
      (rule step_unwrapped step_wrapped step_skipped step_runs; assumption))

lemma trim_ready: "trim '' {{ state.ready }} '' = ''{{'' @ '' state.ready '' @ ''}}''"
  by (simp add: trim_def isWhite_def)

lemma trim_inner: "trim '' state.ready '' = ''state.ready''"
  by (simp add: trim_def isWhite_def)

lemma trim_broken: "trim ''{{ state.ready === }}'' = ''{{'' @ '' state.ready === '' @ ''}}''"
  by (simp add: trim_def isWhite_def)

lemma trim_broken_inner: "trim '' state.ready === '' = ''state.ready ===''"
  by (simp add: trim_def isWhite_def)

theorem step_condition_guard_witness:
  "evaluateStepCondition exampleExecutors '' {{ state.ready }} '' (readyState True)
   \<and> executeStep exampleExecutors (guardedStep '' {{ state.ready }} '') (readyState True)
       = Inr [(''data.done'', Bool True)]
   \<and> executeStep exampleExecutors (guardedStep '' {{ state.ready }} '') (readyState False) = Inr []
   \<and> executeStep exampleExecutors (guardedStep ''{{ state.ready === }}'') (readyState True) = Inr []
   \<and> executeStep exampleExecutors (guardedStep ''state.ready'') (readyState True) = Inr []"
proof -
  have u: "\<not> (\<exists>body. trim ''state.ready'' = ''{{'' @ body @ ''}}'')"
    by (simp add: trim_def isWhite_def)
  have g: "guardedStep c = (guardedStep c)\<lparr>step_condition := Some c\<rparr>" for c
    by (simp add: guardedStep_def)
  have n: "executeStep exampleExecutors ((guardedStep c)\<lparr>step_condition := None\<rparr>) st
      = Inr [(''data.done'', Bool True)]" for c st
    by (simp add: executeStep_def guardedStep_def truthyStr_def exampleExecutors_def)
  note A = step_condition_guard [of "'' {{ state.ready }} ''" exampleExecutors "readyState True"
      "'' state.ready ''" "guardedStep '' {{ state.ready }} ''"]
  note B = step_condition_guard [of "'' {{ state.ready }} ''" exampleExecutors "readyState False"
      "'' state.ready ''" "guardedStep '' {{ state.ready }} ''"]
  note C = step_condition_guard [of "''{{ state.ready === }}''" exampleExecutors "readyState True"
      "'' state.ready === ''" "guardedStep ''{{ state.ready === }}''"]
  note D = step_condition_guard [of "''state.ready''" exampleExecutors "readyState True"
      "[]" "guardedStep ''state.ready''"]
  have hT: "hostFunction exampleExecutors ''state.ready'' (readyState True) = Inr (Bool True)"
    and hF: "hostFunction exampleExecutors ''state.ready'' (readyState False) = Inr (Bool False)"
    and hB: "hostFunction exampleExecutors ''state.ready ==='' (readyState True) = Inl ''SyntaxError''"
    by (simp_all add: exampleExecutors_def readyState_def getNestedProperty_def isObjectType_def
        lookupKey_def)
  have ne: "'' {{ state.ready }} '' \<noteq> []" "''{{ state.ready === }}'' \<noteq> []"
    "''state.ready'' \<noteq> []" by simp_all
  from A [THEN conjunct2, THEN conjunct1, rule_format, OF trim_ready]
  have 1: "evaluateStepCondition exampleExecutors '' {{ state.ready }} '' (readyState True)"
    by (simp only: trim_inner hT sum.case truthy.simps simp_thms)
  from A [THEN conjunct2, THEN conjunct2, THEN conjunct2, rule_format, OF 1]
  have 2: "executeStep exampleExecutors (guardedStep '' {{ state.ready }} '') (readyState True)
       = Inr [(''data.done'', Bool True)]"
    by (simp only: g [symmetric] n)
  from B [THEN conjunct2, THEN conjunct1, rule_format, OF trim_ready]
  have b: "\<not> evaluateStepCondition exampleExecutors '' {{ state.ready }} '' (readyState False)"
    by (simp only: trim_inner hF sum.case truthy.simps simp_thms)
  from B [THEN conjunct2, THEN conjunct2, THEN conjunct1, rule_format, OF conjI, OF ne(1) b]
  have 3: "executeStep exampleExecutors (guardedStep '' {{ state.ready }} '') (readyState False) = Inr []"
    by (simp only: g [symmetric])
  from C [THEN conjunct2, THEN conjunct1, rule_format, OF trim_broken]
  have c: "\<not> evaluateStepCondition exampleExecutors ''{{ state.ready === }}'' (readyState True)"
    by (simp only: trim_broken_inner hB sum.case simp_thms)
  from C [THEN conjunct2, THEN conjunct2, THEN conjunct1, rule_format, OF conjI, OF ne(2) c]
  have 4: "executeStep exampleExecutors (guardedStep ''{{ state.ready === }}'') (readyState True) = Inr []"
    by (simp only: g [symmetric])
  from D [THEN conjunct1, rule_format, OF u]
  have d: "\<not> evaluateStepCondition exampleExecutors ''state.ready'' (readyState True)" .
  from D [THEN conjunct2, THEN conjunct2, THEN conjunct1, rule_format, OF conjI, OF ne(3) d]
  have 5: "executeStep exampleExecutors (guardedStep ''state.ready'') (readyState True) = Inr []"
    by (simp only: g [symmetric])
  from 1 2 3 4 5 show ?thesis by (intro conjI)
qed

text \<open>
  The claim as stated fails: \<^verbatim>\<open>state.x === 1\<close> is an expression of the restricted grammar
  that the safe evaluator finds true, and the step guarded by it is skipped.
\<close>

theorem step_condition_counterexample:
  "isSafeExpression ''state.x === 1''
   \<and> evaluateExpression ''state.x === 1'' (readyState True) = Inr (Bool True)
   \<and> \<not> evaluateStepCondition exampleExecutors ''state.x === 1'' (readyState True)
   \<and> executeStep exampleExecutors (guardedStep ''state.x === 1'') (readyState True) = Inr []"
  by code_simp

subsection \<open>Universal node\<close>

lemma runSteps_append:
  "completedUpdates env st pre i ups = Some acc \<Longrightarrow>
   runSteps env st (pre @ rest) i ups = runSteps env st rest (i + length pre) acc"
proof (induction pre arbitrary: i ups)
  case Nil
  then show ?case by simp
next
  case (Cons s pre)
  from Cons.prems obtain nested where n: "convertFlatToNested ups = Inr nested"
    by (cases "convertFlatToNested ups") simp_all
  from Cons.prems n obtain d where
    d: "executeStep (env_executors env) s (Obj (deepMergeObjects (withStepIndex st i) nested)) = Inr d"
    by (cases "executeStep (env_executors env) s (Obj (deepMergeObjects (withStepIndex st i) nested))")
       simp_all
  from Cons.prems n d have "completedUpdates env st pre (Suc i) (objectAssign ups d) = Some acc"
    by simp
  from Cons.IH [OF this] show ?case by (simp add: n d)
qed




lemma universalNode_runs:
  assumes "resolveConfig env nodeConfig = Inr config" "normalizeSteps config = Inr steps"
  shows "universalNode env nodeConfig state
     = runSteps env (withSystemPrefix env config state) steps 0 (initialUpdates state)"
  using assms by (simp add: universalNode_def)

text \<open>
  The three forms of a configuration, and what the node runs for each: the steps of an
  inline \<^verbatim>\<open>steps\<close> array, the one step of the single-step form, and for a reference the
  steps of the stored configuration.
\<close>

lemma resolveConfig_inline:
  "unc_steps nodeConfig = Some steps \<Longrightarrow> resolveConfig env nodeConfig = Inr nodeConfig"
  by (simp add: resolveConfig_def)

lemma resolveConfig_reference:
  assumes "unc_steps nodeConfig = None" "unc_nodeId nodeConfig = Some n" "n \<noteq> []"
    and "getUniversalNode env n = Inr (Some stored)"
  shows "resolveConfig env nodeConfig = Inr stored"
  using assms by (simp add: resolveConfig_def truthyStr_def jsOr_def)

lemma normalizeSteps_inline:
  "unc_steps nodeConfig = Some steps \<Longrightarrow> steps \<noteq> [] \<Longrightarrow> normalizeSteps nodeConfig = Inr steps"
  by (simp add: normalizeSteps_def)

lemma normalizeSteps_single:
  assumes "unc_steps nodeConfig = None" "unc_type nodeConfig = Some t" "t \<noteq> []"
    and "unc_config nodeConfig = Some c" "truthy c"
  shows "normalizeSteps nodeConfig
     = Inr [\<lparr>step_type = t, step_config = c, step_condition = None\<rparr>]"
  using assms by (simp add: normalizeSteps_def truthyStr_def truthyOpt_def jsOr_def)

text \<open>
  A step that throws \<^verbatim>\<open>null\<close> or \<^verbatim>\<open>undefined\<close>: the \<^verbatim>\<open>catch\<close> block fails on \<^verbatim>\<open>error.message\<close>
  and the node raises.
\<close>

lemma nullish_step_raises:
  assumes "resolveConfig env nodeConfig = Inr config"
    and "normalizeSteps config = Inr (pre @ step # post)"
    and "completedUpdates env (withSystemPrefix env config state) pre 0 (initialUpdates state)
           = Some acc"
    and "convertFlatToNested acc = Inr nested"
    and "executeStep (env_executors env) step
           (Obj (deepMergeObjects (withStepIndex (withSystemPrefix env config state) (length pre))
                   nested)) = Inl error"
    and "nullish error"
  shows "universalNode env nodeConfig state = Inl MessageTypeError"
proof -
  let ?st = "withSystemPrefix env config state"
  have "universalNode env nodeConfig state = runSteps env ?st (pre @ step # post) 0 (initialUpdates state)"
    by (rule universalNode_runs [OF assms(1,2)])
  also have "\<dots> = runSteps env ?st (step # post) (length pre) acc"
    using runSteps_append [OF assms(3), of "step # post"] by simp
  also have "\<dots> = Inl MessageTypeError"
    using assms(4,5,6) by simp
  finally show ?thesis .
qed

lemma null_step_example: "universalNode exampleEnv nullNode (Obj []) = Inl MessageTypeError"
  by code_simp




subsection \<open>Template renderer\<close>

lemma stripPrefix_append: "stripPrefix p (p @ r) = Some r"
  by (induction p) auto

lemma isPathChar_brace: "\<not> isPathChar CHR ''}''"
  by (simp add: isPathChar_def isWordChar_def)

lemma match_placeholder:
  assumes "isPath p"
  shows "matchPlaceholder (''{{state.'' @ p @ ''}}'' @ rest) = Some (p, rest)"
proof -
  from assms have pc: "\<forall>x\<in>set p. isPathChar x"
    using isPath_pathChars [of p] by (simp add: list_all_iff)
  have tw: "takeWhile isPathChar (p @ ''}}'' @ rest) = p"
    using pc isPathChar_brace by (simp add: takeWhile_append2 del: append.simps)
  have dw: "dropWhile isPathChar (p @ ''}}'' @ rest) = ''}}'' @ rest"
    using pc isPathChar_brace by (simp add: dropWhile_append2 del: append.simps)
  have sp: "stripPrefix ''{{state.'' (''{{state.'' @ p @ ''}}'' @ rest) = Some (p @ ''}}'' @ rest)"
    by (rule stripPrefix_append)
  have sp2: "stripPrefix ''}}'' (''}}'' @ rest) = Some rest" by (rule stripPrefix_append)
  show ?thesis
    unfolding matchPlaceholder_def sp option.case Let_def tw dw sp2
    using assms by simp
qed

lemma render_placeholder_head:
  assumes "isPath p"
  shows "renderTemplate (''{{state.'' @ p @ ''}}'' @ rest) st
     = (fst (replacePlaceholder st p) @ fst (renderTemplate rest st),
        snd (replacePlaceholder st p) @ snd (renderTemplate rest st))"
proof -
  have "''{{state.'' @ p @ ''}}'' @ rest = CHR ''{'' # (''{state.'' @ p @ ''}}'' @ rest)" by simp
  then have "renderTemplate (''{{state.'' @ p @ ''}}'' @ rest) st =
     (case matchPlaceholder (''{{state.'' @ p @ ''}}'' @ rest) of
        Some (path, r) \<Rightarrow>
          (case replacePlaceholder st path of
             (replacement, warns) \<Rightarrow>
               (case renderTemplate r st of
                  (out, ws) \<Rightarrow> (replacement @ out, warns @ ws)))
      | None \<Rightarrow>
          (case renderTemplate (''{state.'' @ p @ ''}}'' @ rest) st of (out, ws) \<Rightarrow> (CHR ''{'' # out, ws)))"
    by (simp only: renderTemplate.simps)
  then show ?thesis
    by (simp only: match_placeholder [OF assms] option.case prod.case case_prod_beta fst_conv snd_conv)
qed

lemma matchPlaceholder_SomeD:
  assumes "matchPlaceholder t = Some (p, r)"
  shows "isPath p \<and> t = ''{{state.'' @ p @ ''}}'' @ r"
proof -
  from assms obtain r0 where r0: "stripPrefix ''{{state.'' t = Some r0"
    by (auto simp: matchPlaceholder_def split: option.splits)
  from assms r0 have ip: "isPath (takeWhile isPathChar r0)"
    and sp: "stripPrefix ''}}'' (dropWhile isPathChar r0) = Some r"
    and p: "p = takeWhile isPathChar r0"
    by (auto simp: matchPlaceholder_def Let_def split: option.splits if_splits)
  from r0 have t: "t = ''{{state.'' @ r0" by (simp only: stripPrefix_Some)
  from sp have d: "dropWhile isPathChar r0 = ''}}'' @ r" by (simp only: stripPrefix_Some)
  have "p @ ''}}'' @ r = r0"
    unfolding p d [symmetric] by (rule takeWhile_dropWhile_id)
  then have "t = ''{{state.'' @ p @ ''}}'' @ r" by (simp only: t)
  moreover from ip have "isPath p" by (simp only: p)
  ultimately show ?thesis by (rule conjI [rotated])
qed

lemma containsPlaceholder_Cons: "containsPlaceholder s \<Longrightarrow> containsPlaceholder (c # s)"
proof -
  assume "containsPlaceholder s"
  then obtain b p a where "isPath p" "s = b @ ''{{state.'' @ p @ ''}}'' @ a"
    unfolding containsPlaceholder_def by blast
  then have "isPath p \<and> c # s = (c # b) @ ''{{state.'' @ p @ ''}}'' @ a" by simp
  then show ?thesis unfolding containsPlaceholder_def by blast
qed

lemma plain_no_match: "\<not> containsPlaceholder s \<Longrightarrow> matchPlaceholder s = None"
proof (rule ccontr)
  assume n: "\<not> containsPlaceholder s" and "matchPlaceholder s \<noteq> None"
  then obtain p r where "matchPlaceholder s = Some (p, r)" by auto
  from matchPlaceholder_SomeD [OF this] have "isPath p \<and> s = [] @ ''{{state.'' @ p @ ''}}'' @ r" by simp
  then have "containsPlaceholder s" unfolding containsPlaceholder_def by blast
  with n show False by simp
qed

lemma brace_not_in_path: "isPath p \<Longrightarrow> CHR ''{'' \<notin> set p"
  using isPath_pathChars [of p] by (auto simp: list_all_iff isPathChar_def isWordChar_def)

lemma no_match_before:
  assumes n: "\<not> containsPlaceholder s" and ne: "s \<noteq> []"
  shows "matchPlaceholder (s @ ''{{'' @ x) = None"
proof (rule ccontr)
  assume "matchPlaceholder (s @ ''{{'' @ x) \<noteq> None"
  then obtain p r where "matchPlaceholder (s @ ''{{'' @ x) = Some (p, r)" by auto
  from matchPlaceholder_SomeD [OF this]
  have ip: "isPath p" and eq: "s @ ''{{'' @ x = (''{{state.'' @ p @ ''}}'') @ r" by simp_all
  from eq obtain us where
    "(s = (''{{state.'' @ p @ ''}}'') @ us \<and> us @ ''{{'' @ x = r)
     \<or> (s @ us = ''{{state.'' @ p @ ''}}'' \<and> ''{{'' @ x = us @ r)"
    by (auto simp only: append_eq_append_conv2)
  then show False
  proof
    assume "s = (''{{state.'' @ p @ ''}}'') @ us \<and> us @ ''{{'' @ x = r"
    then have "isPath p \<and> s = [] @ ''{{state.'' @ p @ ''}}'' @ us" using ip by simp
    then have "containsPlaceholder s" unfolding containsPlaceholder_def by blast
    with n show False by simp
  next
    assume a: "s @ us = ''{{state.'' @ p @ ''}}'' \<and> ''{{'' @ x = us @ r"
    show False
    proof (cases us)
      case Nil
      with a have "isPath p \<and> s = [] @ ''{{state.'' @ p @ ''}}'' @ []" using ip by simp
      then have "containsPlaceholder s" unfolding containsPlaceholder_def by blast
      with n show False by simp
    next
      case (Cons u us')
      with a have u: "u = CHR ''{''" by simp
      from ne obtain c s' where s: "s = c # s'" by (cases s) auto
      with a have c: "c = CHR ''{''" and s': "s' @ us = ''{state.'' @ p @ ''}}''" by simp_all
      show False
      proof (cases s')
        case Nil
        with s' Cons have "us' = ''state.'' @ p @ ''}}''" by simp
        with a Cons show False by simp
      next
        case (Cons d s'')
        with s' have "s'' @ us = ''state.'' @ p @ ''}}''" by simp
        then have "set (s'' @ us) = set (''state.'' @ p @ ''}}'')" by simp
        moreover have "CHR ''{'' \<in> set (s'' @ us)" using \<open>us = u # us'\<close> u by simp
        ultimately have "CHR ''{'' \<in> set p" by simp
        with brace_not_in_path [OF ip] show False by simp
      qed
    qed
  qed
qed

lemma render_plain_prefix:
  "\<not> containsPlaceholder pre \<Longrightarrow>
   renderTemplate (pre @ ''{{'' @ x) st
     = (pre @ fst (renderTemplate (''{{'' @ x) st), snd (renderTemplate (''{{'' @ x) st))"
proof (induction pre)
  case Nil
  then show ?case by simp
next
  case (Cons c pre)
  from Cons.prems have m: "matchPlaceholder ((c # pre) @ ''{{'' @ x) = None"
    by (rule no_match_before) simp
  from Cons.prems have "\<not> containsPlaceholder pre" using containsPlaceholder_Cons by blast
  from Cons.IH [OF this] m show ?case by (simp add: case_prod_beta del: matchPlaceholder_def)
qed

lemma render_plain:
  "\<not> containsPlaceholder t \<Longrightarrow> renderTemplate t st = (t, [])"
proof (induction t)
  case Nil
  then show ?case by simp
next
  case (Cons c t)
  from Cons.prems have m: "matchPlaceholder (c # t) = None" by (rule plain_no_match)
  from Cons.prems have "\<not> containsPlaceholder t" using containsPlaceholder_Cons by blast
  from Cons.IH [OF this] m show ?case by simp
qed

lemma containsPlaceholder_code:
  "containsPlaceholder s = list_ex (\<lambda>t. matchPlaceholder t \<noteq> None) (suffixes s)"
proof
  assume "containsPlaceholder s"
  then obtain b p a where ip: "isPath p" and s: "s = b @ ''{{state.'' @ p @ ''}}'' @ a"
    unfolding containsPlaceholder_def by blast
  have "suffix (''{{state.'' @ p @ ''}}'' @ a) s" unfolding s by (rule suffixI) simp
  then have "''{{state.'' @ p @ ''}}'' @ a \<in> set (suffixes s)" by (simp only: in_set_suffixes)
  moreover have "matchPlaceholder (''{{state.'' @ p @ ''}}'' @ a) \<noteq> None"
    by (simp only: match_placeholder [OF ip]) simp
  ultimately show "list_ex (\<lambda>t. matchPlaceholder t \<noteq> None) (suffixes s)"
    unfolding list_ex_iff by blast
next
  assume "list_ex (\<lambda>t. matchPlaceholder t \<noteq> None) (suffixes s)"
  then obtain t where t: "t \<in> set (suffixes s)" and m: "matchPlaceholder t \<noteq> None"
    unfolding list_ex_iff by blast
  from t have "suffix t s" by (simp only: in_set_suffixes)
  then obtain b where s: "s = b @ t" by (auto simp: suffix_def)
  from m obtain p r where "matchPlaceholder t = Some (p, r)" by auto
  from matchPlaceholder_SomeD [OF this] s have "isPath p \<and> s = b @ ''{{state.'' @ p @ ''}}'' @ r"
    by simp
  then show "containsPlaceholder s" unfolding containsPlaceholder_def by blast
qed


lemma no_placeholder_empty: "\<not> containsPlaceholder []"
  by (simp add: containsPlaceholder_def)

lemma containsPlaceholder_tail:
  assumes "containsPlaceholder (c # t)" "matchPlaceholder (c # t) = None"
  shows "containsPlaceholder t"
proof -
  from assms(1) obtain b p a where ip: "isPath p" and e: "c # t = b @ ''{{state.'' @ p @ ''}}'' @ a"
    unfolding containsPlaceholder_def by blast
  show ?thesis
  proof (cases b)
    case Nil
    with e have "c # t = ''{{state.'' @ p @ ''}}'' @ a" by simp
    with match_placeholder [OF ip, of a] assms(2) show ?thesis by simp
  next
    case (Cons d b')
    with e have "isPath p \<and> t = b' @ ''{{state.'' @ p @ ''}}'' @ a" using ip by simp
    then show ?thesis unfolding containsPlaceholder_def by blast
  qed
qed

text \<open>
  Every text with a placeholder has a first one: the text before it contains none. With
  the theorem below this covers every template, placeholder by placeholder.
\<close>

lemma first_placeholder:
  "containsPlaceholder t \<Longrightarrow>
   \<exists>pre path rest. \<not> containsPlaceholder pre \<and> isPath path
      \<and> t = pre @ ''{{state.'' @ path @ ''}}'' @ rest"
proof (induction t)
  case Nil
  then show ?case by (simp add: no_placeholder_empty)
next
  case (Cons c t)
  show ?case
  proof (cases "matchPlaceholder (c # t)")
    case (Some pr)
    obtain p r where "pr = (p, r)" by (cases pr)
    with Some have "matchPlaceholder (c # t) = Some (p, r)" by simp
    from matchPlaceholder_SomeD [OF this]
    have "\<not> containsPlaceholder [] \<and> isPath p \<and> c # t = [] @ ''{{state.'' @ p @ ''}}'' @ r"
      by (simp add: no_placeholder_empty)
    then show ?thesis by blast
  next
    case None
    from containsPlaceholder_tail [OF Cons.prems None] have "containsPlaceholder t" .
    from Cons.IH [OF this] obtain pre path rest where
      n: "\<not> containsPlaceholder pre" and ip: "isPath path"
      and t: "t = pre @ ''{{state.'' @ path @ ''}}'' @ rest" by blast
    have "\<not> containsPlaceholder (c # pre)"
    proof
      assume "containsPlaceholder (c # pre)"
      moreover have "matchPlaceholder (c # pre) = None"
      proof (rule ccontr)
        assume "matchPlaceholder (c # pre) \<noteq> None"
        then obtain p r where "matchPlaceholder (c # pre) = Some (p, r)" by auto
        from matchPlaceholder_SomeD [OF this]
        have ip': "isPath p" and "c # pre = ''{{state.'' @ p @ ''}}'' @ r" by simp_all
        then have "c # t = ''{{state.'' @ p @ ''}}'' @ (r @ ''{{state.'' @ path @ ''}}'' @ rest)"
          using t by simp
        with match_placeholder [OF ip', of "r @ ''{{state.'' @ path @ ''}}'' @ rest"] None
        show False by simp
      qed
      ultimately have "containsPlaceholder pre" by (rule containsPlaceholder_tail)
      with n show False by simp
    qed
    moreover have "c # t = (c # pre) @ ''{{state.'' @ path @ ''}}'' @ rest" using t by simp
    ultimately show ?thesis using ip by blast
  qed
qed

lemma render_placeholder:
  assumes "\<not> containsPlaceholder pre" "isPath p"
  shows "renderTemplate (pre @ ''{{state.'' @ p @ ''}}'' @ rest) st
     = (pre @ fst (replacePlaceholder st p) @ fst (renderTemplate rest st),
        snd (replacePlaceholder st p) @ snd (renderTemplate rest st))"
proof -
  have e: "''{{state.'' @ p @ ''}}'' @ rest = ''{{'' @ (''state.'' @ p @ ''}}'' @ rest)" by simp
  have "renderTemplate (pre @ ''{{state.'' @ p @ ''}}'' @ rest) st
      = (pre @ fst (renderTemplate (''{{state.'' @ p @ ''}}'' @ rest) st),
         snd (renderTemplate (''{{state.'' @ p @ ''}}'' @ rest) st))"
    unfolding e by (rule render_plain_prefix [OF assms(1)])
  then show ?thesis
    by (simp only: render_placeholder_head [OF assms(2)] fst_conv snd_conv)
qed

lemma json_of_object: "isObjectValue v \<Longrightarrow> \<exists>j. jsonStringify v = Some j"
  by (cases v) (simp_all add: isObjectValue_def)

text \<open>
  Claim C6, as amended. The renderer copies the text before the first placeholder as it
  is, braces included, replaces the placeholder \<^verbatim>\<open>{{state.<path>}}\<close> and goes on behind it,
  so every occurrence is treated in turn; a text without a placeholder is returned
  unchanged. The placeholder is replaced by the JSON text of an array or object found at
  the path, by the string form of any other value found there; when nothing is found and
  the path does not start with \<^verbatim>\<open>data.\<close>, by the string form of a primitive value found at
  \<^verbatim>\<open>data.<path>\<close>; and when that lookup finds nothing either, or the path starts with
  \<^verbatim>\<open>data.\<close>, the placeholder stays as it is, a warning is logged, and rendering goes on.
\<close>

theorem render_substitutes:
  assumes "\<not> containsPlaceholder pre" and "isPath path"
  shows
   "renderTemplate pre state = (pre, [])
  \<and> (getNestedProperty_tr state path \<noteq> Undefined \<and> isObjectValue (getNestedProperty_tr state path) \<longrightarrow>
       (\<exists>json. jsonStringify (getNestedProperty_tr state path) = Some json
          \<and> renderTemplate (pre @ ''{{state.'' @ path @ ''}}'' @ rest) state
             = (pre @ json @ fst (renderTemplate rest state), snd (renderTemplate rest state))))
  \<and> (getNestedProperty_tr state path \<noteq> Undefined \<and> \<not> isObjectValue (getNestedProperty_tr state path) \<longrightarrow>
       renderTemplate (pre @ ''{{state.'' @ path @ ''}}'' @ rest) state
         = (pre @ jsString (getNestedProperty_tr state path) @ fst (renderTemplate rest state),
            snd (renderTemplate rest state)))
  \<and> (getNestedProperty_tr state path = Undefined \<and> \<not> startsWith path ''data.''
       \<and> getNestedProperty_tr state (''data.'' @ path) \<noteq> Undefined
       \<and> \<not> isObjectValue (getNestedProperty_tr state (''data.'' @ path)) \<longrightarrow>
       renderTemplate (pre @ ''{{state.'' @ path @ ''}}'' @ rest) state
         = (pre @ jsString (getNestedProperty_tr state (''data.'' @ path)) @ fst (renderTemplate rest state),
            snd (renderTemplate rest state)))
  \<and> (getNestedProperty_tr state path = Undefined
       \<and> (startsWith path ''data.'' \<or> getNestedProperty_tr state (''data.'' @ path) = Undefined) \<longrightarrow>
       renderTemplate (pre @ ''{{state.'' @ path @ ''}}'' @ rest) state
         = (pre @ ''{{state.'' @ path @ ''}}'' @ fst (renderTemplate rest state),
            notFoundWarning path # snd (renderTemplate rest state)))"
proof -
  note r = render_placeholder [OF assms, of rest state]
  let ?v = "getNestedProperty_tr state path"
  let ?d = "getNestedProperty_tr state (''data.'' @ path)"
  have 0: "renderTemplate pre state = (pre, [])" by (rule render_plain [OF assms(1)])
  have 1: "?v \<noteq> Undefined \<and> isObjectValue ?v \<longrightarrow>
       (\<exists>json. jsonStringify ?v = Some json
          \<and> renderTemplate (pre @ ''{{state.'' @ path @ ''}}'' @ rest) state
             = (pre @ json @ fst (renderTemplate rest state), snd (renderTemplate rest state)))"
  proof (intro impI, elim conjE)
    assume a: "?v \<noteq> Undefined" "isObjectValue ?v"
    from json_of_object [OF a(2)] obtain j where j: "jsonStringify ?v = Some j" by blast
    with a have "replacePlaceholder state path = (j, [])"
      by (simp add: replacePlaceholder_def Let_def)
    with j show "\<exists>json. jsonStringify ?v = Some json
          \<and> renderTemplate (pre @ ''{{state.'' @ path @ ''}}'' @ rest) state
             = (pre @ json @ fst (renderTemplate rest state), snd (renderTemplate rest state))"
      by (simp only: r) simp
  qed
  have 2: "?v \<noteq> Undefined \<and> \<not> isObjectValue ?v \<longrightarrow>
       renderTemplate (pre @ ''{{state.'' @ path @ ''}}'' @ rest) state
         = (pre @ jsString ?v @ fst (renderTemplate rest state), snd (renderTemplate rest state))"
  proof (intro impI, elim conjE)
    assume a: "?v \<noteq> Undefined" "\<not> isObjectValue ?v"
    then have "replacePlaceholder state path = (jsString ?v, [])"
      by (simp add: replacePlaceholder_def Let_def)
    then show "renderTemplate (pre @ ''{{state.'' @ path @ ''}}'' @ rest) state
         = (pre @ jsString ?v @ fst (renderTemplate rest state), snd (renderTemplate rest state))"
      by (simp only: r) simp
  qed
  have 3: "?v = Undefined \<and> \<not> startsWith path ''data.'' \<and> ?d \<noteq> Undefined \<and> \<not> isObjectValue ?d \<longrightarrow>
       renderTemplate (pre @ ''{{state.'' @ path @ ''}}'' @ rest) state
         = (pre @ jsString ?d @ fst (renderTemplate rest state), snd (renderTemplate rest state))"
  proof (intro impI, elim conjE)
    assume a: "?v = Undefined" "\<not> startsWith path ''data.''" "?d \<noteq> Undefined"
    then have "replacePlaceholder state path = (jsString ?d, [])"
      unfolding replacePlaceholder_def Let_def by (simp only: if_True if_False simp_thms)
    then show "renderTemplate (pre @ ''{{state.'' @ path @ ''}}'' @ rest) state
         = (pre @ jsString ?d @ fst (renderTemplate rest state), snd (renderTemplate rest state))"
      by (simp only: r) simp
  qed
  have 4: "?v = Undefined \<and> (startsWith path ''data.'' \<or> ?d = Undefined) \<longrightarrow>
       renderTemplate (pre @ ''{{state.'' @ path @ ''}}'' @ rest) state
         = (pre @ ''{{state.'' @ path @ ''}}'' @ fst (renderTemplate rest state),
            notFoundWarning path # snd (renderTemplate rest state))"
  proof (intro impI, elim conjE)
    assume a: "?v = Undefined" "startsWith path ''data.'' \<or> ?d = Undefined"
    then have "replacePlaceholder state path = (''{{state.'' @ path @ ''}}'', [notFoundWarning path])"
      unfolding replacePlaceholder_def Let_def by (auto simp del: append.simps)
    then show "renderTemplate (pre @ ''{{state.'' @ path @ ''}}'' @ rest) state
         = (pre @ ''{{state.'' @ path @ ''}}'' @ fst (renderTemplate rest state),
            notFoundWarning path # snd (renderTemplate rest state))"
      by (simp only: r) simp
  qed
  from 0 1 2 3 4 show ?thesis by (intro conjI)
qed

theorem render_substitutes_witness:
  "renderTemplate ''{\"domain\": \"{{state.user.name}}\"}'' aliceState
       = (''{\"domain\": \"Alice\"}'', [])
   \<and> renderTemplate ''tags: {{state.user.tags}}'' aliceState
       = (''tags: [\"a\",1.5]'', [])
   \<and> renderTemplate ''{{state.}} {{state.topic}}'' aliceState = (''{{state.}} cats'', [])
   \<and> renderTemplate ''{ {{state.missing}}?'' aliceState
       = (''{ {{state.missing}}?'', [''[TemplateRenderer] Variable not found: state.missing''])
   \<and> renderTemplate ''{{state.a b}} {x}'' aliceState = (''{{state.a b}} {x}'', [])"
proof -
  have p: "isPath ''user.name''" "isPath ''user.tags''" "isPath ''topic''" "isPath ''missing''"
    by (simp_all add: isPath_def isWordChar_def)
  have b: "\<not> containsPlaceholder ''{\"domain\": \"''" "\<not> containsPlaceholder ''tags: ''"
    "\<not> containsPlaceholder ''{{state.}} ''" "\<not> containsPlaceholder ''{ ''"
    "\<not> containsPlaceholder ''{{state.a b}} {x}''"
    unfolding containsPlaceholder_code by code_simp+
  have v1: "getNestedProperty_tr aliceState ''user.name'' = Str ''Alice''" by code_simp
  have v2: "getNestedProperty_tr aliceState ''user.tags'' \<noteq> Undefined"
    "isObjectValue (getNestedProperty_tr aliceState ''user.tags'')" by code_simp+
  have j2: "jsonStringify (getNestedProperty_tr aliceState ''user.tags'') = Some ''[\"a\",1.5]''"
    by code_simp
  have v3: "getNestedProperty_tr aliceState ''topic'' = Undefined"
    "getNestedProperty_tr aliceState (''data.'' @ ''topic'') = Str ''cats''"
    "\<not> startsWith ''topic'' ''data.''" by code_simp+
  have v4: "getNestedProperty_tr aliceState ''missing'' = Undefined"
    "getNestedProperty_tr aliceState (''data.'' @ ''missing'') = Undefined" by code_simp+
  have r: "renderTemplate ''\"}'' aliceState = (''\"}'', [])" "renderTemplate [] aliceState = ([], [])"
    "renderTemplate ''?'' aliceState = (''?'', [])"
    by (simp_all add: matchPlaceholder_def)
  from render_substitutes [OF b(1) p(1), of aliceState "''\"}''", THEN conjunct2, THEN conjunct2, THEN conjunct1]
  have 1: "renderTemplate ''{\"domain\": \"{{state.user.name}}\"}'' aliceState
       = (''{\"domain\": \"Alice\"}'', [])"
    by (simp add: v1 r isObjectValue_def del: renderTemplate.simps)
  from render_substitutes [OF b(2) p(2), of aliceState "[]", THEN conjunct2, THEN conjunct1]
  have 2: "renderTemplate ''tags: {{state.user.tags}}'' aliceState = (''tags: [\"a\",1.5]'', [])"
    by (simp add: v2 j2 r del: renderTemplate.simps)
  from render_substitutes [OF b(3) p(3), of aliceState "[]", THEN conjunct2, THEN conjunct2, THEN conjunct2, THEN conjunct1]
  have 3: "renderTemplate ''{{state.}} {{state.topic}}'' aliceState = (''{{state.}} cats'', [])"
    using v3(3) by (simp add: v3(1,2) [simplified] r isObjectValue_def del: renderTemplate.simps)
  from render_substitutes [OF b(4) p(4), of aliceState "''?''", THEN conjunct2, THEN conjunct2, THEN conjunct2, THEN conjunct2]
  have 4: "renderTemplate ''{ {{state.missing}}?'' aliceState
       = (''{ {{state.missing}}?'', [''[TemplateRenderer] Variable not found: state.missing''])"
    by (simp add: v4 [simplified] r notFoundWarning_def del: renderTemplate.simps)
  from render_substitutes [OF b(5) p(1), of aliceState, THEN conjunct1]
  have 5: "renderTemplate ''{{state.a b}} {x}'' aliceState = (''{{state.a b}} {x}'', [])" .
  from 1 2 3 4 5 show ?thesis by (intro conjI)
qed

text \<open>
  The claim as stated fails: the unresolved path \<^verbatim>\<open>data.x\<close> is not looked up again under
  \<^verbatim>\<open>data.\<close>, although \<^verbatim>\<open>data.data.x\<close> has a value.
\<close>

theorem render_counterexample:
  "getNestedProperty_tr aliceState ''data.x'' = Undefined
   \<and> getNestedProperty_tr aliceState ''data.data.x'' = Str ''v''
   \<and> renderTemplate ''{{state.data.x}}'' aliceState
       = (''{{state.data.x}}'', [''[TemplateRenderer] Variable not found: state.data.x''])"
  by code_simp

subsection \<open>Tool process pool\<close>

text \<open>
  Claim C8 fails on the code: the call is routed to the child that lists the tool, but the
  \<^verbatim>\<open>tools/call\<close> request carries \<^verbatim>\<open>name\<close> and \<^verbatim>\<open>arguments\<close> only; the metadata handed to
  the pool is dropped and the request has no \<^verbatim>\<open>_meta\<close>.
\<close>

theorem callTool_drops_meta:
  "pool_callTool [(''web'', webClient)] ''web_search'' searchArgs (Some callMeta) =
     (Inr (Obj [(''content'', Arr [])]),
      [\<lparr>rpc_server = ''web'', rpc_method = ''tools/list'', rpc_params = []\<rparr>,
       \<lparr>rpc_server = ''web'', rpc_method = ''tools/call'',
        rpc_params = [(''name'', Str ''web_search''), (''arguments'', searchArgs)]\<rparr>])
   \<and> map_of [(''name'', Str ''web_search''), (''arguments'', searchArgs)] ''_meta'' = None"
  by (simp add: pool_callTool_def client_listTools_def client_callTool_def webClient_def)

subsection \<open>Orchestrator front door\<close>

lemma loadGraph_effects: "list_all (\<lambda>e. \<not> storesOrDispatches e) (snd (loadGraph env g u))"
  by (simp add: loadGraph_def Let_def split: sum.splits)

lemma startAndDispatch_busy:
  assumes "\<not> truthyStr (startGeneration env (respond_conversationId env message options))"
  shows "startAndDispatch env message options userId compiled =
           (Inl (RespondError ''A generation is already in progress for this conversation''),
            [StartGeneration (respond_conversationId env message options),
             LoggerLog ''warn'' ''Generation already in progress for conversation''])"
  using assms by (simp add: startAndDispatch_def Let_def)

text \<open>
  Claim C10. When \<^verbatim>\<open>startGeneration\<close> yields no generation id for the conversation, a call
  of \<^verbatim>\<open>respond\<close> ends in an error, and none of its effects is a \<^verbatim>\<open>store_message\<close> call, a
  call of the streaming generator (which is what registers a stream) or an invocation of
  the graph with an initial state. When the user id is present and the graph loads, the
  error is the one of a generation in progress, and the effects are the graph look-ups,
  the call of \<^verbatim>\<open>startGeneration\<close> and one warning in the log.
\<close>

theorem respond_generation_in_progress:
  assumes "\<not> truthyStr (startGeneration env (respond_conversationId env message options))"
  shows "(\<exists>e. fst (respond env message options) = Inl e)
    \<and> list_all (\<lambda>e. \<not> storesOrDispatches e) (snd (respond env message options))
    \<and> (truthyStr (opt_userId options)
         \<and> fst (loadGraph env (respond_graphId env options) (respond_userId options)) = Inr compiled \<longrightarrow>
        respond env message options =
          (Inl (RespondError ''A generation is already in progress for this conversation''),
           snd (loadGraph env (respond_graphId env options) (respond_userId options))
           @ [StartGeneration (respond_conversationId env message options),
              LoggerLog ''warn'' ''Generation already in progress for conversation'']))"
proof (cases "truthyStr (opt_userId options)")
  case False
  then show ?thesis by (simp add: respond_def)
next
  case True
  let ?u = "respond_userId options"
  let ?g = "respond_graphId env options"
  obtain r effs0 where lg: "loadGraph env ?g ?u = (r, effs0)" by (cases "loadGraph env ?g ?u")
  have le: "list_all (\<lambda>e. \<not> storesOrDispatches e) effs0"
    using loadGraph_effects [of env ?g ?u] lg by simp
  show ?thesis
  proof (cases r)
    case (Inl e)
    with True lg le show ?thesis
      by (simp add: respond_def Let_def)
  next
    case (Inr c)
    with True lg le startAndDispatch_busy [OF assms, of ?u c] show ?thesis
      by (auto simp: respond_def Let_def)
  qed
qed

theorem respond_generation_in_progress_witness:
  "respond busyEnv ''hi'' busyOptions =
     (Inl (RespondError ''A generation is already in progress for this conversation''),
      [GetGraph ''research-mode'' ''u1'', GetGraph ''red-assistant'' ''u1'',
       StartGeneration ''conv_busy'',
       LoggerLog ''warn'' ''Generation already in progress for conversation''])
   \<and> list_all (\<lambda>e. \<not> storesOrDispatches e) (snd (respond busyEnv ''hi'' busyOptions))"
proof -
  have c: "respond_conversationId busyEnv ''hi'' busyOptions = ''conv_busy''"
    by (simp add: respond_conversationId_def busyOptions_def jsOr_def)
  have a: "\<not> truthyStr (startGeneration busyEnv (respond_conversationId busyEnv ''hi'' busyOptions))"
    unfolding c by (simp add: busyEnv_def truthyStr_def)
  have u: "truthyStr (opt_userId busyOptions)" by (simp add: busyOptions_def truthyStr_def)
  have l: "loadGraph busyEnv (respond_graphId busyEnv busyOptions) (respond_userId busyOptions)
     = (Inr ''red-assistant'', [GetGraph ''research-mode'' ''u1'', GetGraph ''red-assistant'' ''u1''])"
    by (simp add: loadGraph_def respond_graphId_def respond_userId_def busyOptions_def busyEnv_def
        settingsOf_def jsOr_def DEFAULT_GRAPH_ID_def Let_def)
  note t = respond_generation_in_progress [OF a, of "''red-assistant''"]
  from t [THEN conjunct2, THEN conjunct2] u l
  have 1: "respond busyEnv ''hi'' busyOptions =
     (Inl (RespondError ''A generation is already in progress for this conversation''),
      [GetGraph ''research-mode'' ''u1'', GetGraph ''red-assistant'' ''u1'',
       StartGeneration ''conv_busy'',
       LoggerLog ''warn'' ''Generation already in progress for conversation''])"
    by (simp add: c)
  from t [THEN conjunct2, THEN conjunct1] 1 show ?thesis by (intro conjI)
qed

subsection \<open>Streaming token transformer\<close>

text \<open>
  Claim C4 fails on the code. For the stream \<^verbatim>\<open><think>plan</think> answer\<close>, whole or split at
  the tags, the closing tag yields the single-space chunk and the thought \<^verbatim>\<open>plan\<close> is
  stored, but the space that follows the tag is kept: setting \<^verbatim>\<open>streamedTokens\<close> at the
  closing tag switches the filter for leading white space off, and the persisted content
  is \<^verbatim>\<open> answer\<close> with its leading space.
\<close>

theorem think_block_keeps_leading_space:
  "persistedContent (transformStream exampleStream [''<think>plan</think> answer''])
     = Some '' answer''
   \<and> storedThoughts (transformStream exampleStream [''<think>plan</think> answer'']) = [''plan'']
   \<and> yieldedChunks (transformStream exampleStream [''<think>plan</think> answer''])
       = ['' '', '' answer'']
   \<and> persistedContent
       (transformStream exampleStream [''<think>'', ''plan'', ''</think>'', '' answer''])
     = Some '' answer''"
  by code_simp

end
